theory Spec2Isabelle
  imports Complex_Main
begin

section \<open>Configuration (config.py)\<close>

text \<open>
  The handlers read their constants from the module \<^verbatim>\<open>config\<close>. The fields the modelled
  functions use are collected in one record, so that a property can be stated for every
  configuration and evaluated at the shipped one. Python's integers are \<open>int\<close>; the two
  counts that only feed \<^verbatim>\<open>range\<close> and list repetition are \<open>nat\<close>. Time stamps
  (\<^verbatim>\<open>time.time()\<close>) are modelled as exact reals.
\<close>

datatype level = LOW | HIGH

record config =
  QR_COOLDOWN_SECONDS :: real
  BARRIER_CLOSED_ANGLE :: int
  BARRIER_OPEN_ANGLE :: int
  BARRIER_OPEN_DURATION :: real
  NUM_REAL_SENSORS :: nat
  IR_SENSOR_PINS :: "int list"
  REAL_SLOT_MAPPING :: "int list"
  TOTAL_SLOTS :: nat
  IR_ACTIVE_LOW :: bool

definition shipped_config :: config where
  "shipped_config =
     \<lparr> QR_COOLDOWN_SECONDS = 5,
       BARRIER_CLOSED_ANGLE = 0,
       BARRIER_OPEN_ANGLE = 90,
       BARRIER_OPEN_DURATION = 5,
       NUM_REAL_SENSORS = 6,
       IR_SENSOR_PINS = [17, 27, 22, 23, 24, 25],
       REAL_SLOT_MAPPING = [2, 5, 8, 12, 15, 18],
       TOTAL_SLOTS = 20,
       IR_ACTIVE_LOW = True \<rparr>"

text \<open>The configuration of the specification's end-to-end scenarios: three sensors bound
  to the slots 2, 5 and 8 of ten.\<close>

definition scenario_config :: config where
  "scenario_config =
     \<lparr> QR_COOLDOWN_SECONDS = 5,
       BARRIER_CLOSED_ANGLE = 0,
       BARRIER_OPEN_ANGLE = 90,
       BARRIER_OPEN_DURATION = 5,
       NUM_REAL_SENSORS = 3,
       IR_SENSOR_PINS = [17, 27, 22],
       REAL_SLOT_MAPPING = [2, 5, 8],
       TOTAL_SLOTS = 10,
       IR_ACTIVE_LOW = True \<rparr>"

text \<open>Exceptions that the modelled code can raise, and the log records and callbacks it
  emits. Info and debug records do not influence control flow and are left out; warnings
  and errors are kept with the fixed part of their text.\<close>

datatype py_exception = IndexError | KeyError | AttributeError | HardwareError string

section \<open>SlotHandler (slot\_handler.py)\<close>

record slot_handler =
  real_slot_states :: "bool list"
  virtual_slot_states :: "bool list"

datatype slot_event = StateChangeCallback "bool list" | SlotLogError string

definition slot_handler_init :: "config \<Rightarrow> slot_handler" where
  "slot_handler_init cfg =
     \<lparr> real_slot_states = replicate (NUM_REAL_SENSORS cfg) False,
       virtual_slot_states = replicate (TOTAL_SLOTS cfg) True \<rparr>"

text \<open>
  The loop of \<^verbatim>\<open>_update_virtual_slots\<close> over \<^verbatim>\<open>range(NUM_REAL_SENSORS)\<close>. Reading
  \<^verbatim>\<open>REAL_SLOT_MAPPING[i]\<close> or \<^verbatim>\<open>real_slot_states[i]\<close> past the end raises IndexError,
  which leaves the table as far as it was written. The guarded store is always in range
  of the fresh table.
\<close>

fun map_sensors :: "config \<Rightarrow> bool list \<Rightarrow> nat list \<Rightarrow> bool list \<Rightarrow> bool list \<times> py_exception option" where
  "map_sensors cfg rs [] vs = (vs, None)"
| "map_sensors cfg rs (i # is) vs =
     (if length (REAL_SLOT_MAPPING cfg) \<le> i then (vs, Some IndexError)
      else
        let slot_number = REAL_SLOT_MAPPING cfg ! i;
            slot_index = slot_number - 1
        in if 0 \<le> slot_index \<and> slot_index < int (TOTAL_SLOTS cfg) then
             (if length rs \<le> i then (vs, Some IndexError)
              else map_sensors cfg rs is (vs[nat slot_index := rs ! i]))
           else map_sensors cfg rs is vs)"

definition update_virtual_slots :: "config \<Rightarrow> slot_handler \<Rightarrow> slot_handler \<times> py_exception option" where
  "update_virtual_slots cfg st =
     (case map_sensors cfg (real_slot_states st) [0..<NUM_REAL_SENSORS cfg]
             (replicate (TOTAL_SLOTS cfg) True) of
        (vs, exn) \<Rightarrow> (st\<lparr>virtual_slot_states := vs\<rparr>, exn))"

definition get_slot_states :: "slot_handler \<Rightarrow> bool list" where
  "get_slot_states st = virtual_slot_states st"

text \<open>\<^verbatim>\<open>get_available_slots\<close>: the slot numbers \<open>i + 1\<close> whose entry is False, in order;
  IndexError when the table is shorter than \<^verbatim>\<open>TOTAL_SLOTS\<close>.\<close>

fun collect_available :: "bool list \<Rightarrow> nat list \<Rightarrow> int list \<Rightarrow> py_exception + int list" where
  "collect_available vs [] available = Inr available"
| "collect_available vs (i # is) available =
     (if length vs \<le> i then Inl IndexError
      else if \<not> vs ! i then collect_available vs is (available @ [int i + 1])
      else collect_available vs is available)"

definition get_available_slots :: "config \<Rightarrow> slot_handler \<Rightarrow> py_exception + int list" where
  "get_available_slots cfg st =
     collect_available (virtual_slot_states st) [0..<TOTAL_SLOTS cfg] []"

text \<open>
  One pass of the \<^verbatim>\<open>for\<close> loop of \<^verbatim>\<open>_monitor_sensors\<close>. \<open>gpio\<close> is \<^verbatim>\<open>GPIO.input\<close>:
  the level of a pin, or the text of the exception the read raises. The pass stores each
  changed value as soon as it is seen and keeps the flag \<open>state_changed\<close>; an exception
  leaves the loop with the state as written so far.
\<close>

definition is_occupied :: "config \<Rightarrow> level \<Rightarrow> bool" where
  "is_occupied cfg pin_state = (if IR_ACTIVE_LOW cfg then pin_state = LOW else pin_state = HIGH)"

fun read_sensors :: "config \<Rightarrow> (int \<Rightarrow> string + level) \<Rightarrow> nat list \<Rightarrow> bool list \<Rightarrow> bool
                       \<Rightarrow> bool list \<times> bool \<times> py_exception option" where
  "read_sensors cfg gpio [] rs state_changed = (rs, state_changed, None)"
| "read_sensors cfg gpio (i # is) rs state_changed =
     (if length (IR_SENSOR_PINS cfg) \<le> i then (rs, state_changed, Some IndexError)
      else
        (case gpio (IR_SENSOR_PINS cfg ! i) of
           Inl msg \<Rightarrow> (rs, state_changed, Some (HardwareError msg))
         | Inr pin_state \<Rightarrow>
             if length rs \<le> i then (rs, state_changed, Some IndexError)
             else if is_occupied cfg pin_state \<noteq> rs ! i then
               (if length (REAL_SLOT_MAPPING cfg) \<le> i then (rs, state_changed, Some IndexError)
                else read_sensors cfg gpio is (rs[i := is_occupied cfg pin_state]) True)
             else read_sensors cfg gpio is rs state_changed))"

text \<open>
  One iteration of the \<^verbatim>\<open>while\<close> loop of \<^verbatim>\<open>_monitor_sensors\<close>: the pass over the
  sensors, then, only when the pass ended normally with the flag set, the recomputation of
  the virtual table and the callback (when one is registered) on a copy of it. Any
  exception is caught by the loop's handler, which logs an error and goes on with the
  next iteration.
\<close>

definition monitor_sensors_step :: "config \<Rightarrow> bool \<Rightarrow> (int \<Rightarrow> string + level) \<Rightarrow> slot_handler
                                     \<Rightarrow> slot_handler \<times> slot_event list" where
  "monitor_sensors_step cfg has_callback gpio st =
     (case read_sensors cfg gpio [0..<NUM_REAL_SENSORS cfg] (real_slot_states st) False of
        (rs, state_changed, Some exn) \<Rightarrow>
          (st\<lparr>real_slot_states := rs\<rparr>, [SlotLogError ''Error in slot monitoring''])
      | (rs, state_changed, None) \<Rightarrow>
          if state_changed then
            (case update_virtual_slots cfg (st\<lparr>real_slot_states := rs\<rparr>) of
               (st', Some exn) \<Rightarrow> (st', [SlotLogError ''Error in slot monitoring''])
             | (st', None) \<Rightarrow>
                 (st', if has_callback then [StateChangeCallback (virtual_slot_states st')] else []))
          else (st\<lparr>real_slot_states := rs\<rparr>, []))"

text \<open>A configuration is valid when it binds each of the \<^verbatim>\<open>NUM_REAL_SENSORS\<close> sensors
  to a slot number in \<open>1..TOTAL_SLOTS\<close> and no two sensors to the same slot.\<close>

definition valid_config :: "config \<Rightarrow> bool" where
  "valid_config cfg \<longleftrightarrow>
     length (REAL_SLOT_MAPPING cfg) = NUM_REAL_SENSORS cfg \<and>
     distinct (REAL_SLOT_MAPPING cfg) \<and>
     list_all (\<lambda>s. 1 \<le> s \<and> s \<le> int (TOTAL_SLOTS cfg)) (REAL_SLOT_MAPPING cfg)"

text \<open>Two readings of the pins of the scenario configuration: the first sensor (pin 17)
  occupied and the others free; and the same with the read of the second sensor (pin 27)
  raising.\<close>

definition first_occupied :: "int \<Rightarrow> string + level" where
  "first_occupied pin = (if pin = 17 then Inr LOW else Inr HIGH)"

definition second_read_fails :: "int \<Rightarrow> string + level" where
  "second_read_fails pin =
     (if pin = 17 then Inr LOW else if pin = 27 then Inl ''read failed'' else Inr HIGH)"

text \<open>The handler of the scenario configuration after \<^verbatim>\<open>setup\<close> has read every sensor
  as free and computed the table: the slots 2, 5 and 8 are available.\<close>

definition scenario_start :: slot_handler where
  "scenario_start = fst (update_virtual_slots scenario_config (slot_handler_init scenario_config))"

section \<open>BarrierHandler (barrier\_handler.py)\<close>

text \<open>
  A PWM handle is identified by its pin. The servo driver is an input of the model:
  \<open>drv p d\<close> is \<open>None\<close> when \<^verbatim>\<open>ChangeDutyCycle(d)\<close> on the handle of pin \<open>p\<close> returns,
  and the exception's text when it raises. Every call that is issued is recorded, whether
  it returns or raises.
\<close>

type_synonym pwm = int

type_synonym driver = "pwm \<Rightarrow> real \<Rightarrow> string option"

datatype barrier_event =
    ChangeDutyCycle pwm real
  | BarrierLogWarning string
  | BarrierLogError string

record barrier_handler =
  entry_pwm :: "pwm option"
  exit_pwm :: "pwm option"
  entry_open :: bool
  exit_open :: bool
  entry_timer :: real
  exit_timer :: real

text \<open>What a call leaves behind: the handler's state, the records it emitted, and
  how it ended for its caller: \<open>Inr ()\<close> when it returned \<^verbatim>\<open>None\<close>, \<open>Inl\<close> when it raised.\<close>

record barrier_outcome =
  new_state :: barrier_handler
  emitted :: "barrier_event list"
  result :: "py_exception + unit"

definition barrier_handler_init :: barrier_handler where
  "barrier_handler_init =
     \<lparr> entry_pwm = None, exit_pwm = None,
       entry_open = False, exit_open = False,
       entry_timer = 0, exit_timer = 0 \<rparr>"

definition duty_cycle :: "int \<Rightarrow> real" where
  "duty_cycle angle = 2.5 + (real_of_int angle / 180) * 10"

text \<open>\<^verbatim>\<open>_set_servo_angle\<close>: two driver calls, the second one with duty cycle 0. On a handle
  that is still \<^verbatim>\<open>None\<close> the first call raises AttributeError before anything is issued.\<close>

definition set_servo_angle :: "driver \<Rightarrow> pwm option \<Rightarrow> int \<Rightarrow> py_exception option \<times> barrier_event list" where
  "set_servo_angle drv handle angle =
     (case handle of
        None \<Rightarrow> (Some AttributeError, [])
      | Some p \<Rightarrow>
          (case drv p (duty_cycle angle) of
             Some msg \<Rightarrow> (Some (HardwareError msg), [ChangeDutyCycle p (duty_cycle angle)])
           | None \<Rightarrow>
               (case drv p 0 of
                  Some msg \<Rightarrow>
                    (Some (HardwareError msg),
                     [ChangeDutyCycle p (duty_cycle angle), ChangeDutyCycle p 0])
                | None \<Rightarrow>
                    (None, [ChangeDutyCycle p (duty_cycle angle), ChangeDutyCycle p 0]))))"

text \<open>
  \<^verbatim>\<open>open_barrier\<close>. \<open>now\<close> is the value \<^verbatim>\<open>time.time()\<close> returns when the timer is
  stamped. The servo is driven on every call for a known lane, whatever the lane's state;
  the two fields are written only after the servo call has returned. The handler of the
  \<^verbatim>\<open>try\<close> catches every exception, logs it, and the function returns \<^verbatim>\<open>None\<close>.
\<close>

definition open_barrier :: "config \<Rightarrow> driver \<Rightarrow> real \<Rightarrow> string \<Rightarrow> barrier_handler \<Rightarrow> barrier_outcome" where
  "open_barrier cfg drv now barrier_type st =
     (if barrier_type = ''entry'' then
        (case set_servo_angle drv (entry_pwm st) (BARRIER_OPEN_ANGLE cfg) of
           (None, calls) \<Rightarrow>
             \<lparr> new_state = st\<lparr>entry_open := True, entry_timer := now\<rparr>,
               emitted = calls, result = Inr () \<rparr>
         | (Some exn, calls) \<Rightarrow>
             \<lparr> new_state = st,
               emitted = calls @ [BarrierLogError (''Error opening '' @ barrier_type @ '' barrier'')],
               result = Inr () \<rparr>)
      else if barrier_type = ''exit'' then
        (case set_servo_angle drv (exit_pwm st) (BARRIER_OPEN_ANGLE cfg) of
           (None, calls) \<Rightarrow>
             \<lparr> new_state = st\<lparr>exit_open := True, exit_timer := now\<rparr>,
               emitted = calls, result = Inr () \<rparr>
         | (Some exn, calls) \<Rightarrow>
             \<lparr> new_state = st,
               emitted = calls @ [BarrierLogError (''Error opening '' @ barrier_type @ '' barrier'')],
               result = Inr () \<rparr>)
      else
        \<lparr> new_state = st,
          emitted = [BarrierLogWarning (''Unknown barrier type: '' @ barrier_type)],
          result = Inr () \<rparr>)"

text \<open>\<^verbatim>\<open>close_barrier\<close>: the servo is driven only when the lane is open; an unknown lane
  falls through both branches without a record.\<close>

definition close_barrier :: "config \<Rightarrow> driver \<Rightarrow> string \<Rightarrow> barrier_handler \<Rightarrow> barrier_outcome" where
  "close_barrier cfg drv barrier_type st =
     (if barrier_type = ''entry'' then
        (if entry_open st then
           (case set_servo_angle drv (entry_pwm st) (BARRIER_CLOSED_ANGLE cfg) of
              (None, calls) \<Rightarrow>
                \<lparr> new_state = st\<lparr>entry_open := False, entry_timer := 0\<rparr>,
                  emitted = calls, result = Inr () \<rparr>
            | (Some exn, calls) \<Rightarrow>
                \<lparr> new_state = st,
                  emitted = calls @ [BarrierLogError (''Error closing '' @ barrier_type @ '' barrier'')],
                  result = Inr () \<rparr>)
         else \<lparr> new_state = st, emitted = [], result = Inr () \<rparr>)
      else if barrier_type = ''exit'' then
        (if exit_open st then
           (case set_servo_angle drv (exit_pwm st) (BARRIER_CLOSED_ANGLE cfg) of
              (None, calls) \<Rightarrow>
                \<lparr> new_state = st\<lparr>exit_open := False, exit_timer := 0\<rparr>,
                  emitted = calls, result = Inr () \<rparr>
            | (Some exn, calls) \<Rightarrow>
                \<lparr> new_state = st,
                  emitted = calls @ [BarrierLogError (''Error closing '' @ barrier_type @ '' barrier'')],
                  result = Inr () \<rparr>)
         else \<lparr> new_state = st, emitted = [], result = Inr () \<rparr>)
      else \<lparr> new_state = st, emitted = [], result = Inr () \<rparr>)"

text \<open>
  The watchdog, \<^verbatim>\<open>_auto_close_handler\<close>. It reads a lane's flag and then the lane's timer
  without holding the lock, and only \<^verbatim>\<open>close_barrier\<close>, which it calls when the timer
  has run out, takes the lock and tests the flag again. Calls of other threads can
  therefore complete between the read of the flag and the read of the timer, and between
  the read of the timer and the call of \<^verbatim>\<open>close_barrier\<close>. Their net effect on the state
  is an input of the model: \<open>others_test\<close> for the first gap and \<open>others_close\<close> for the
  second. \<open>current_time\<close> is read once, at the start of the iteration.
\<close>

type_synonym interference = "barrier_handler \<Rightarrow> barrier_handler"

definition auto_close_entry :: "config \<Rightarrow> driver \<Rightarrow> real \<Rightarrow> interference \<Rightarrow> interference
                                 \<Rightarrow> barrier_handler \<Rightarrow> barrier_outcome" where
  "auto_close_entry cfg drv current_time others_test others_close st =
     (if entry_open st then
        (if current_time - entry_timer (others_test st) > BARRIER_OPEN_DURATION cfg
         then close_barrier cfg drv ''entry'' (others_close (others_test st))
         else \<lparr> new_state = others_test st, emitted = [], result = Inr () \<rparr>)
      else \<lparr> new_state = st, emitted = [], result = Inr () \<rparr>)"

definition auto_close_exit :: "config \<Rightarrow> driver \<Rightarrow> real \<Rightarrow> interference \<Rightarrow> interference
                                \<Rightarrow> barrier_handler \<Rightarrow> barrier_outcome" where
  "auto_close_exit cfg drv current_time others_test others_close st =
     (if exit_open st then
        (if current_time - exit_timer (others_test st) > BARRIER_OPEN_DURATION cfg
         then close_barrier cfg drv ''exit'' (others_close (others_test st))
         else \<lparr> new_state = others_test st, emitted = [], result = Inr () \<rparr>)
      else \<lparr> new_state = st, emitted = [], result = Inr () \<rparr>)"

text \<open>
  One iteration of the \<^verbatim>\<open>while\<close> loop: the entry lane is handled, then the exit lane.
  An interleaving names what the other threads do in each gap of the iteration; in the
  undisturbed one they do nothing, and the iteration acts on one state throughout.
\<close>

record interleaving =
  during_entry_test :: interference
  before_entry_close :: interference
  between_lanes :: interference
  during_exit_test :: interference
  before_exit_close :: interference

definition undisturbed :: interleaving where
  "undisturbed =
     \<lparr> during_entry_test = (\<lambda>st. st), before_entry_close = (\<lambda>st. st),
       between_lanes = (\<lambda>st. st),
       during_exit_test = (\<lambda>st. st), before_exit_close = (\<lambda>st. st) \<rparr>"

definition auto_close_step :: "config \<Rightarrow> driver \<Rightarrow> real \<Rightarrow> interleaving \<Rightarrow> barrier_handler
                                \<Rightarrow> barrier_outcome" where
  "auto_close_step cfg drv current_time others st =
     (let r1 = auto_close_entry cfg drv current_time
                 (during_entry_test others) (before_entry_close others) st;
          st1 = between_lanes others (new_state r1);
          r2 = auto_close_exit cfg drv current_time
                 (during_exit_test others) (before_exit_close others) st1
      in \<lparr> new_state = new_state r2, emitted = emitted r1 @ emitted r2, result = Inr () \<rparr>)"

definition get_status :: "barrier_handler \<Rightarrow> string \<times> string" where
  "get_status st =
     (if entry_open st then ''open'' else ''closed'',
      if exit_open st then ''open'' else ''closed'')"

text \<open>The fields of one lane, by the lane's name.\<close>

definition lane_open :: "string \<Rightarrow> barrier_handler \<Rightarrow> bool" where
  "lane_open lane st = (if lane = ''entry'' then entry_open st else exit_open st)"

definition lane_timer :: "string \<Rightarrow> barrier_handler \<Rightarrow> real" where
  "lane_timer lane st = (if lane = ''entry'' then entry_timer st else exit_timer st)"

definition lane_pwm :: "string \<Rightarrow> barrier_handler \<Rightarrow> pwm option" where
  "lane_pwm lane st = (if lane = ''entry'' then entry_pwm st else exit_pwm st)"

definition is_lane :: "string \<Rightarrow> bool" where
  "is_lane lane \<longleftrightarrow> lane = ''entry'' \<or> lane = ''exit''"

text \<open>The watchdog's handling of one lane, by the lane's name.\<close>

definition auto_close_lane :: "config \<Rightarrow> driver \<Rightarrow> real \<Rightarrow> string \<Rightarrow> interference \<Rightarrow> interference
                                \<Rightarrow> barrier_handler \<Rightarrow> barrier_outcome" where
  "auto_close_lane cfg drv current_time lane others_test others_close st =
     (if lane = ''entry'' then auto_close_entry cfg drv current_time others_test others_close st
      else auto_close_exit cfg drv current_time others_test others_close st)"

text \<open>A driver on which every call returns, and one on which every call raises.\<close>

definition working_driver :: driver where
  "working_driver p d = None"

definition failing_driver :: driver where
  "failing_driver p d = Some ''servo fault''"

text \<open>
  The states a handler can be in. \<^verbatim>\<open>setup\<close> only assigns the two PWM handles (it may
  stop after the first); the other steps are calls of \<^verbatim>\<open>open_barrier\<close> and
  \<^verbatim>\<open>close_barrier\<close>, with any driver, and undisturbed iterations of the watchdog. The
  watchdog writes the state only through \<^verbatim>\<open>close_barrier\<close>, so an iteration that calls
  of other threads interleave with is a sequence of closing steps and of the steps of
  those calls. The clock never reads 0: \<^verbatim>\<open>time.time()\<close> counts the seconds since 1970.
\<close>

inductive reachable :: "config \<Rightarrow> barrier_handler \<Rightarrow> bool" for cfg :: config where
  reach_init: "reachable cfg barrier_handler_init"
| reach_setup_entry: "reachable cfg st \<Longrightarrow> reachable cfg (st\<lparr>entry_pwm := Some p\<rparr>)"
| reach_setup_exit: "reachable cfg st \<Longrightarrow> reachable cfg (st\<lparr>exit_pwm := Some p\<rparr>)"
| reach_open: "reachable cfg st \<Longrightarrow> now \<noteq> 0
     \<Longrightarrow> reachable cfg (new_state (open_barrier cfg drv now barrier_type st))"
| reach_close: "reachable cfg st
     \<Longrightarrow> reachable cfg (new_state (close_barrier cfg drv barrier_type st))"
| reach_auto_close: "reachable cfg st
     \<Longrightarrow> reachable cfg (new_state (auto_close_step cfg drv now undisturbed st))"

definition timer_invariant :: "barrier_handler \<Rightarrow> bool" where
  "timer_invariant st \<longleftrightarrow>
     (entry_timer st \<noteq> 0) = entry_open st \<and> (exit_timer st \<noteq> 0) = exit_open st"

text \<open>The handler after a \<^verbatim>\<open>setup\<close> that went through with the shipped pins: both
  PWM handles are there and both lanes are closed.\<close>

definition ready_handler :: barrier_handler where
  "ready_handler = barrier_handler_init\<lparr>entry_pwm := Some 18, exit_pwm := Some 13\<rparr>"

section \<open>CameraHandler (camera\_handler.py)\<close>

text \<open>
  \<^verbatim>\<open>last_qr_times\<close> is a dictionary keyed by the camera type. A frame is \<open>None\<close> when
  \<^verbatim>\<open>camera.read()\<close> reports failure, and otherwise the list of symbols the decoder found
  in it, each one its UTF-8 text or \<open>None\<close> when the bytes do not decode.
\<close>

record camera_handler =
  last_qr_times :: "string \<rightharpoonup> real"

datatype camera_event =
    QrDetectedCallback string string
  | CameraLogWarning string
  | CameraLogError string

definition camera_handler_init :: camera_handler where
  "camera_handler_init = \<lparr> last_qr_times = [''entry'' \<mapsto> 0, ''exit'' \<mapsto> 0] \<rparr>"

text \<open>
  One iteration of the \<^verbatim>\<open>while\<close> loop of \<^verbatim>\<open>_monitor_camera\<close>, with \<open>current_time\<close> the
  clock value read after the frame. Only the first symbol of a frame is used
  (\<^verbatim>\<open>break\<close>). A missing dictionary key and an undecodable symbol raise into the loop's
  handler, which logs an error.
\<close>

definition monitor_camera_step :: "config \<Rightarrow> bool \<Rightarrow> string \<Rightarrow> real \<Rightarrow> string option list option
                                    \<Rightarrow> camera_handler \<Rightarrow> camera_handler \<times> camera_event list" where
  "monitor_camera_step cfg has_callback camera_type current_time frame st =
     (case frame of
        None \<Rightarrow> (st, [CameraLogWarning (camera_type @ '' camera: Failed to read frame'')])
      | Some qr_codes \<Rightarrow>
          (case last_qr_times st camera_type of
             None \<Rightarrow> (st, [CameraLogError (''Error in '' @ camera_type @ '' camera monitoring'')])
           | Some last_qr_time \<Rightarrow>
               if current_time - last_qr_time < QR_COOLDOWN_SECONDS cfg then (st, [])
               else
                 (case qr_codes of
                    [] \<Rightarrow> (st, [])
                  | None # _ \<Rightarrow>
                      (st, [CameraLogError (''Error in '' @ camera_type @ '' camera monitoring'')])
                  | Some qr_data # _ \<Rightarrow>
                      (st\<lparr>last_qr_times := (last_qr_times st)(camera_type \<mapsto> current_time)\<rparr>,
                       if has_callback then [QrDetectedCallback qr_data camera_type] else []))))"

section \<open>MQTTHandler (mqtt\_handler.py)\<close>

text \<open>
  The value \<^verbatim>\<open>json.loads\<close> returns. An object is the list of the items of the Python
  dictionary (its keys are distinct); \<open>dict_get\<close> is \<^verbatim>\<open>dict.get\<close> with a default.
\<close>

datatype json =
    JNull
  | JBool bool
  | JInt int
  | JFloat real
  | JStr string
  | JArr "json list"
  | JObj "(string \<times> json) list"

datatype mqtt_event =
    DoorCommandCallback string json json json
  | MqttLogWarning string
  | MqttLogError string

definition dict_get :: "(string \<times> json) list \<Rightarrow> string \<Rightarrow> json \<Rightarrow> json" where
  "dict_get items k dflt = (case map_of items k of Some v \<Rightarrow> v | None \<Rightarrow> dflt)"

text \<open>\<^verbatim>\<open>str.lower\<close>; only a string has the method. A character stands for a code point
  below 256, whose capital letters are A to Z and the code points 192 to 222 without
  215.\<close>

definition lower_char :: "char \<Rightarrow> char" where
  "lower_char c =
     (let n = (of_char c :: nat)
      in if (65 \<le> n \<and> n \<le> 90) \<or> (192 \<le> n \<and> n \<le> 222 \<and> n \<noteq> 215)
         then char_of (n + 32) else c)"

definition lower :: "json \<Rightarrow> py_exception + string" where
  "lower v = (case v of JStr s \<Rightarrow> Inr (map lower_char s) | _ \<Rightarrow> Inl AttributeError)"

text \<open>
  \<^verbatim>\<open>_handle_door_command\<close>. \<open>parsed\<close> is the result of \<^verbatim>\<open>json.loads(payload)\<close>, \<open>None\<close>
  when it raises JSONDecodeError. The fields are read in the order of the source, so a
  barrier that is not a string raises before the action is looked at. The barrier is
  passed on to the callback as it is: the handler compares only the action.
\<close>

definition handle_door_command :: "bool \<Rightarrow> json option \<Rightarrow> mqtt_event list" where
  "handle_door_command has_callback parsed =
     (case parsed of
        None \<Rightarrow> [MqttLogError ''Invalid JSON in door command'']
      | Some (JObj items) \<Rightarrow>
          (case lower (dict_get items ''action'' (JStr '''')) of
             Inl exn \<Rightarrow> [MqttLogError ''Error handling door command'']
           | Inr action \<Rightarrow>
               (case lower (dict_get items ''barrier'' (JStr '''')) of
                  Inl exn \<Rightarrow> [MqttLogError ''Error handling door command'']
                | Inr barrier \<Rightarrow>
                    let user_id = dict_get items ''userId'' (JStr ''Unknown'');
                        slot_number = dict_get items ''slotNumber'' (JInt 0);
                        timestamp = dict_get items ''timestamp'' (JStr '''')
                    in if action = ''open'' then
                         (if has_callback
                          then [DoorCommandCallback barrier user_id slot_number timestamp]
                          else [])
                       else [MqttLogWarning (''Unknown action received: '' @ action)]))
      | Some _ \<Rightarrow> [MqttLogError ''Error handling door command''])"

text \<open>Whether a record is a call of the door-command callback.\<close>

fun is_dispatch :: "mqtt_event \<Rightarrow> bool" where
  "is_dispatch (DoorCommandCallback barrier user_id slot_number timestamp) = True"
| "is_dispatch _ = False"

text \<open>The messages of the specification's examples, as \<^verbatim>\<open>json.loads\<close> returns them, and
  two more: one with nothing but an action and a barrier, one whose barrier is a number.\<close>

definition exit_command :: json where
  "exit_command = JObj [(''action'', JStr ''open''), (''barrier'', JStr ''exit''),
     (''userId'', JStr ''U1''), (''slotNumber'', JInt 7),
     (''timestamp'', JStr ''2025-01-01T00:00:00'')]"

definition garage_command :: json where
  "garage_command = JObj [(''action'', JStr ''open''), (''barrier'', JStr ''garage''),
     (''userId'', JStr ''U1''), (''slotNumber'', JInt 7),
     (''timestamp'', JStr ''2025-01-01T00:00:00'')]"

definition close_command :: json where
  "close_command = JObj [(''action'', JStr ''close''), (''barrier'', JStr ''exit''),
     (''userId'', JStr ''U1''), (''slotNumber'', JInt 7),
     (''timestamp'', JStr ''2025-01-01T00:00:00'')]"

definition no_action_command :: json where
  "no_action_command = JObj [(''barrier'', JStr ''exit''),
     (''userId'', JStr ''U1''), (''slotNumber'', JInt 7),
     (''timestamp'', JStr ''2025-01-01T00:00:00'')]"

definition bare_command :: json where
  "bare_command = JObj [(''action'', JStr ''OPEN''), (''barrier'', JStr ''Entry'')]"

definition numeric_barrier_command :: json where
  "numeric_barrier_command = JObj [(''action'', JStr ''open''), (''barrier'', JInt 7)]"

section \<open>Properties of the slot table\<close>

lemma map_sensors_length:
  "length (fst (map_sensors cfg rs is vs)) = length vs"
  by (induction cfg rs "is" vs rule: map_sensors.induct) (auto simp: Let_def)

lemma map_sensors_no_exception:
  "\<forall>i \<in> set is. i < length (REAL_SLOT_MAPPING cfg) \<and> i < length rs
     \<Longrightarrow> snd (map_sensors cfg rs is vs) = None"
  by (induction cfg rs "is" vs rule: map_sensors.induct) (auto simp: Let_def)

text \<open>A slot that none of the processed sensors is bound to keeps its entry.\<close>

lemma map_sensors_unbound:
  "j < length vs \<Longrightarrow> \<forall>i \<in> set is. REAL_SLOT_MAPPING cfg ! i \<noteq> int j + 1
     \<Longrightarrow> fst (map_sensors cfg rs is vs) ! j = vs ! j"
  by (induction cfg rs "is" vs rule: map_sensors.induct) (auto simp: Let_def nth_list_update)

text \<open>When the processed sensors are bound to different slots, no later store overwrites
  an earlier one, and each sensor's slot ends with the sensor's value.\<close>

lemma map_sensors_bound:
  "distinct (map (\<lambda>i. REAL_SLOT_MAPPING cfg ! i) is) \<Longrightarrow>
   \<forall>i \<in> set is. i < length (REAL_SLOT_MAPPING cfg) \<and> i < length rs \<and>
       1 \<le> REAL_SLOT_MAPPING cfg ! i \<and> REAL_SLOT_MAPPING cfg ! i \<le> int (TOTAL_SLOTS cfg) \<Longrightarrow>
   length vs = TOTAL_SLOTS cfg \<Longrightarrow> k \<in> set is \<Longrightarrow>
   fst (map_sensors cfg rs is vs) ! nat (REAL_SLOT_MAPPING cfg ! k - 1) = rs ! k"
proof (induction cfg rs "is" vs rule: map_sensors.induct)
  case (1 cfg rs vs)
  then show ?case by simp
next
  case (2 cfg rs i "is" vs)
  let ?m = "REAL_SLOT_MAPPING cfg"
  let ?vs' = "vs[nat (?m ! i - 1) := rs ! i]"
  from "2.prems" have in_range:
    "i < length ?m" "i < length rs" "1 \<le> ?m ! i" "?m ! i \<le> int (TOTAL_SLOTS cfg)"
    by simp_all
  then have step: "map_sensors cfg rs (i # is) vs = map_sensors cfg rs is ?vs'"
    by (simp add: Let_def)
  show ?case
  proof (cases "k \<in> set is")
    case True
    have "fst (map_sensors cfg rs is ?vs') ! nat (?m ! k - 1) = rs ! k"
      using "2.IH"(1)[OF _ refl refl] in_range "2.prems" True by (simp add: Let_def)
    then show ?thesis using step by simp
  next
    case False
    with "2.prems" have k: "k = i" by simp
    have other: "\<forall>i' \<in> set is. ?m ! i' \<noteq> ?m ! i"
      using "2.prems"(1) by (auto simp: image_iff)
    have j: "nat (?m ! i - 1) < length ?vs'"
      using in_range "2.prems"(3) by simp
    have "fst (map_sensors cfg rs is ?vs') ! nat (?m ! i - 1) = ?vs' ! nat (?m ! i - 1)"
      using map_sensors_unbound[OF j, of "is" cfg rs] other in_range by simp
    also have "\<dots> = rs ! i" using j by simp
    finally show ?thesis using step k by simp
  qed
qed

text \<open>On a table of full length, \<^verbatim>\<open>get_available_slots\<close> lists, in order, the numbers of
  the slots whose entry is False.\<close>

lemma collect_available_lists_free:
  "\<forall>i \<in> set is. i < length vs \<Longrightarrow>
   collect_available vs is available
     = Inr (available @ map (\<lambda>i. int i + 1) (filter (\<lambda>i. \<not> vs ! i) is))"
  by (induction vs "is" available rule: collect_available.induct) auto

lemma get_available_slots_lists_free:
  "length (virtual_slot_states st) = TOTAL_SLOTS cfg \<Longrightarrow>
   get_available_slots cfg st
     = Inr (map (\<lambda>i. int i + 1)
              (filter (\<lambda>i. \<not> virtual_slot_states st ! i) [0..<TOTAL_SLOTS cfg]))"
  by (simp add: get_available_slots_def collect_available_lists_free)

lemma valid_configD:
  assumes "valid_config cfg"
  shows "length (REAL_SLOT_MAPPING cfg) = NUM_REAL_SENSORS cfg"
    and "distinct (REAL_SLOT_MAPPING cfg)"
    and "i < NUM_REAL_SENSORS cfg \<Longrightarrow>
           1 \<le> REAL_SLOT_MAPPING cfg ! i \<and> REAL_SLOT_MAPPING cfg ! i \<le> int (TOTAL_SLOTS cfg)"
  using assms by (auto simp: valid_config_def list_all_length)

text \<open>
  Claim C1. For every valid configuration and every state of the physical sensors (one
  value per sensor), \<^verbatim>\<open>_update_virtual_slots\<close> ends without an exception, leaves the
  sensor values as they are, and produces a table of \<^verbatim>\<open>TOTAL_SLOTS\<close> entries in which the
  slot of each sensor holds that sensor's value and every slot no sensor is bound to is
  True (occupied). In the scenario configuration (sensors bound to the slots 2, 5 and 8
  of ten, all free at the start), after the poll in which the first sensor reads
  occupied, \<^verbatim>\<open>get_available_slots\<close> returns exactly the slots 5 and 8.
\<close>

theorem virtual_slots_follow_sensors:
  assumes "valid_config cfg" and "length (real_slot_states st) = NUM_REAL_SENSORS cfg"
  shows "snd (update_virtual_slots cfg st) = None \<and>
         real_slot_states (fst (update_virtual_slots cfg st)) = real_slot_states st \<and>
         length (virtual_slot_states (fst (update_virtual_slots cfg st))) = TOTAL_SLOTS cfg \<and>
         (\<forall>i < NUM_REAL_SENSORS cfg.
            virtual_slot_states (fst (update_virtual_slots cfg st)) ! nat (REAL_SLOT_MAPPING cfg ! i - 1)
              = real_slot_states st ! i) \<and>
         (\<forall>j < TOTAL_SLOTS cfg. int j + 1 \<notin> set (REAL_SLOT_MAPPING cfg) \<longrightarrow>
            virtual_slot_states (fst (update_virtual_slots cfg st)) ! j = True) \<and>
         get_available_slots scenario_config
           (fst (monitor_sensors_step scenario_config True first_occupied
                   (slot_handler_init scenario_config))) = Inr [5, 8]"
proof -
  let ?m = "REAL_SLOT_MAPPING cfg"
  let ?n = "NUM_REAL_SENSORS cfg"
  let ?rs = "real_slot_states st"
  let ?r = "map_sensors cfg ?rs [0..<?n] (replicate (TOTAL_SLOTS cfg) True)"
  note v = valid_configD[OF assms(1)]
  have st': "fst (update_virtual_slots cfg st) = st\<lparr>virtual_slot_states := fst ?r\<rparr>"
    and exn: "snd (update_virtual_slots cfg st) = snd ?r"
    by (simp_all add: update_virtual_slots_def split: prod.splits)
  have rng: "\<forall>i \<in> set [0..<?n]. i < length ?m \<and> i < length ?rs \<and>
               1 \<le> ?m ! i \<and> ?m ! i \<le> int (TOTAL_SLOTS cfg)"
    using v assms(2) by simp
  have c1: "snd ?r = None"
    using map_sensors_no_exception[of "[0..<?n]" cfg ?rs] rng by simp
  have c3: "length (fst ?r) = TOTAL_SLOTS cfg"
    by (simp add: map_sensors_length)
  have dist: "distinct (map (\<lambda>i. ?m ! i) [0..<?n])"
    using v(1,2) map_nth[of ?m] by simp
  have c4: "\<forall>i < ?n. fst ?r ! nat (?m ! i - 1) = ?rs ! i"
    using map_sensors_bound[OF dist rng] by simp
  have c5: "\<forall>j < TOTAL_SLOTS cfg. int j + 1 \<notin> set ?m \<longrightarrow> fst ?r ! j = True"
  proof (intro allI impI)
    fix j assume j: "j < TOTAL_SLOTS cfg" and un: "int j + 1 \<notin> set ?m"
    have "\<forall>i \<in> set [0..<?n]. ?m ! i \<noteq> int j + 1"
      using un v(1) by (metis atLeastLessThan_iff nth_mem set_upt)
    then have "fst ?r ! j = replicate (TOTAL_SLOTS cfg) True ! j"
      using map_sensors_unbound[of j _ "[0..<?n]" cfg ?rs] j by simp
    then show "fst ?r ! j = True" using j by simp
  qed
  have c6: "get_available_slots scenario_config
           (fst (monitor_sensors_step scenario_config True first_occupied
                   (slot_handler_init scenario_config))) = Inr [5, 8]"
    by code_simp
  show ?thesis
    unfolding st' exn using c1 c3 c4 c5 c6 by simp
qed

text \<open>The theorem at the shipped configuration, with the sensors of the slots 2, 8 and
  18 occupied: the table that results is all True except at the slots 5, 12 and 15.\<close>

theorem virtual_slots_follow_sensors_witness:
  "valid_config shipped_config \<and>
   length (real_slot_states
       \<lparr> real_slot_states = [True, False, True, False, False, True],
         virtual_slot_states = replicate 20 True \<rparr>) = NUM_REAL_SENSORS shipped_config \<and>
   snd (update_virtual_slots shipped_config
       \<lparr> real_slot_states = [True, False, True, False, False, True],
         virtual_slot_states = replicate 20 True \<rparr>) = None \<and>
   get_slot_states (fst (update_virtual_slots shipped_config
       \<lparr> real_slot_states = [True, False, True, False, False, True],
         virtual_slot_states = replicate 20 True \<rparr>))
     = [True, True, True, True, False, True, True, True, True, True,
        True, False, True, True, False, True, True, True, True, True]"
proof -
  let ?st = "\<lparr> real_slot_states = [True, False, True, False, False, True],
                virtual_slot_states = replicate 20 True \<rparr>"
  have v: "valid_config shipped_config"
    by (simp add: valid_config_def shipped_config_def)
  have l: "length (real_slot_states ?st) = NUM_REAL_SENSORS shipped_config"
    by (simp add: shipped_config_def)
  note t = virtual_slots_follow_sensors[OF v l]
  have "get_slot_states (fst (update_virtual_slots shipped_config ?st))
     = [True, True, True, True, False, True, True, True, True, True,
        True, False, True, True, False, True, True, True, True, True]"
    by code_simp
  with v l t show ?thesis by simp
qed

section \<open>Properties of the barriers\<close>

lemma set_servo_angle_ok:
  "drv p (duty_cycle angle) = None \<Longrightarrow> drv p 0 = None \<Longrightarrow>
   set_servo_angle drv (Some p) angle =
     (None, [ChangeDutyCycle p (duty_cycle angle), ChangeDutyCycle p 0])"
  by (simp add: set_servo_angle_def)

lemma open_barrier_cases:
  "is_lane lane \<Longrightarrow>
   open_barrier cfg drv now lane st =
     (case set_servo_angle drv (lane_pwm lane st) (BARRIER_OPEN_ANGLE cfg) of
        (None, calls) \<Rightarrow>
          \<lparr> new_state = (if lane = ''entry'' then st\<lparr>entry_open := True, entry_timer := now\<rparr>
                          else st\<lparr>exit_open := True, exit_timer := now\<rparr>),
            emitted = calls, result = Inr () \<rparr>
      | (Some exn, calls) \<Rightarrow>
          \<lparr> new_state = st,
            emitted = calls @ [BarrierLogError (''Error opening '' @ lane @ '' barrier'')],
            result = Inr () \<rparr>)"
  by (auto simp: is_lane_def open_barrier_def lane_pwm_def split: prod.splits option.splits)

lemma close_barrier_cases:
  "is_lane lane \<Longrightarrow>
   close_barrier cfg drv lane st =
     (if lane_open lane st then
        (case set_servo_angle drv (lane_pwm lane st) (BARRIER_CLOSED_ANGLE cfg) of
           (None, calls) \<Rightarrow>
             \<lparr> new_state = (if lane = ''entry'' then st\<lparr>entry_open := False, entry_timer := 0\<rparr>
                             else st\<lparr>exit_open := False, exit_timer := 0\<rparr>),
               emitted = calls, result = Inr () \<rparr>
         | (Some exn, calls) \<Rightarrow>
             \<lparr> new_state = st,
               emitted = calls @ [BarrierLogError (''Error closing '' @ lane @ '' barrier'')],
               result = Inr () \<rparr>)
      else \<lparr> new_state = st, emitted = [], result = Inr () \<rparr>)"
  by (auto simp: is_lane_def close_barrier_def lane_pwm_def lane_open_def split: prod.splits option.splits)

lemma open_barrier_invariant:
  "timer_invariant st \<Longrightarrow> now \<noteq> 0 \<Longrightarrow> timer_invariant (new_state (open_barrier cfg drv now barrier_type st))"
  by (auto simp: open_barrier_def timer_invariant_def split: prod.splits option.splits)

lemma close_barrier_invariant:
  "timer_invariant st \<Longrightarrow> timer_invariant (new_state (close_barrier cfg drv barrier_type st))"
  by (auto simp: close_barrier_def timer_invariant_def split: prod.splits option.splits)

text \<open>An undisturbed iteration tests and closes each lane on one state.\<close>

lemma auto_close_step_undisturbed:
  "auto_close_step cfg drv current_time undisturbed st =
     (let r1 = (if entry_open st \<and> current_time - entry_timer st > BARRIER_OPEN_DURATION cfg
                then close_barrier cfg drv ''entry'' st
                else \<lparr> new_state = st, emitted = [], result = Inr () \<rparr>);
          st1 = new_state r1;
          r2 = (if exit_open st1 \<and> current_time - exit_timer st1 > BARRIER_OPEN_DURATION cfg
                then close_barrier cfg drv ''exit'' st1
                else \<lparr> new_state = st1, emitted = [], result = Inr () \<rparr>)
      in \<lparr> new_state = new_state r2, emitted = emitted r1 @ emitted r2, result = Inr () \<rparr>)"
  by (simp add: auto_close_step_def auto_close_entry_def auto_close_exit_def undisturbed_def Let_def)

lemma auto_close_step_invariant:
  "timer_invariant st \<Longrightarrow> timer_invariant (new_state (auto_close_step cfg drv now undisturbed st))"
  by (simp add: auto_close_step_undisturbed Let_def close_barrier_invariant)

lemma reachable_invariant: "reachable cfg st \<Longrightarrow> timer_invariant st"
proof (induction rule: reachable.induct)
  case reach_init
  show ?case by (simp add: timer_invariant_def barrier_handler_init_def)
next
  case (reach_setup_entry st p)
  then show ?case by (simp add: timer_invariant_def)
next
  case (reach_setup_exit st p)
  then show ?case by (simp add: timer_invariant_def)
next
  case (reach_open st now drv barrier_type)
  then show ?case by (simp add: open_barrier_invariant)
next
  case (reach_close st drv barrier_type)
  then show ?case by (simp add: close_barrier_invariant)
next
  case (reach_auto_close st drv now)
  then show ?case by (simp add: auto_close_step_invariant)
qed

text \<open>
  Claim C9. A call of \<^verbatim>\<open>open_barrier\<close> with a barrier type that is neither
  \<^verbatim>\<open>"entry"\<close> nor \<^verbatim>\<open>"exit"\<close> issues no servo call, leaves the whole state (both flags,
  both timers, both handles) as it was, logs one warning and returns normally.
\<close>

theorem open_unknown_lane_changes_nothing:
  assumes "barrier_type \<noteq> ''entry''" and "barrier_type \<noteq> ''exit''"
  shows "open_barrier cfg drv now barrier_type st =
           \<lparr> new_state = st,
             emitted = [BarrierLogWarning (''Unknown barrier type: '' @ barrier_type)],
             result = Inr () \<rparr> \<and>
         (\<forall>p d. ChangeDutyCycle p d \<notin> set (emitted (open_barrier cfg drv now barrier_type st)))"
  using assms by (simp add: open_barrier_def)

text \<open>The theorem at the barrier type \<^verbatim>\<open>"garage"\<close>.\<close>

theorem open_unknown_lane_changes_nothing_witness:
  "''garage'' \<noteq> ''entry'' \<and> ''garage'' \<noteq> ''exit'' \<and>
   new_state (open_barrier shipped_config working_driver 100 ''garage'' ready_handler) = ready_handler \<and>
   emitted (open_barrier shipped_config working_driver 100 ''garage'' ready_handler)
     = [BarrierLogWarning ''Unknown barrier type: garage''] \<and>
   result (open_barrier shipped_config working_driver 100 ''garage'' ready_handler) = Inr ()"
proof -
  have a: "''garage'' \<noteq> ''entry''" and b: "''garage'' \<noteq> ''exit''" by simp_all
  show ?thesis
    using open_unknown_lane_changes_nothing[OF a b, of shipped_config working_driver 100 ready_handler]
    by simp
qed


lemma close_barrier_other_lane:
  "exit_open (new_state (close_barrier cfg drv ''entry'' st)) = exit_open st"
  "exit_timer (new_state (close_barrier cfg drv ''entry'' st)) = exit_timer st"
  "exit_pwm (new_state (close_barrier cfg drv ''entry'' st)) = exit_pwm st"
  by (simp_all add: close_barrier_def split: prod.splits option.splits)

lemma entry_open_after_close:
  "entry_open (new_state (close_barrier cfg drv ''entry'' st)) =
     (entry_open st \<and> fst (set_servo_angle drv (entry_pwm st) (BARRIER_CLOSED_ANGLE cfg)) \<noteq> None)"
  by (simp add: close_barrier_def split: prod.splits option.splits)

lemma exit_open_after_close:
  "exit_open (new_state (close_barrier cfg drv ''exit'' st)) =
     (exit_open st \<and> fst (set_servo_angle drv (exit_pwm st) (BARRIER_CLOSED_ANGLE cfg)) \<noteq> None)"
  "entry_open (new_state (close_barrier cfg drv ''exit'' st)) = entry_open st"
  by (simp_all add: close_barrier_def split: prod.splits option.splits)

lemma auto_close_step_entry:
  "entry_open (new_state (auto_close_step cfg drv now undisturbed st)) =
     (entry_open st \<and>
      (now - entry_timer st > BARRIER_OPEN_DURATION cfg \<longrightarrow>
         fst (set_servo_angle drv (entry_pwm st) (BARRIER_CLOSED_ANGLE cfg)) \<noteq> None))"
  by (auto simp: auto_close_step_undisturbed Let_def exit_open_after_close entry_open_after_close)

lemma auto_close_step_exit:
  "exit_open (new_state (auto_close_step cfg drv now undisturbed st)) =
     (exit_open st \<and>
      (now - exit_timer st > BARRIER_OPEN_DURATION cfg \<longrightarrow>
         fst (set_servo_angle drv (exit_pwm st) (BARRIER_CLOSED_ANGLE cfg)) \<noteq> None))"
  by (auto simp: auto_close_step_undisturbed Let_def exit_open_after_close close_barrier_other_lane)

lemma auto_close_step_lane:
  "is_lane lane \<Longrightarrow>
   lane_open lane (new_state (auto_close_step cfg drv now undisturbed st)) =
     (lane_open lane st \<and>
      (now - lane_timer lane st > BARRIER_OPEN_DURATION cfg \<longrightarrow>
         fst (set_servo_angle drv (lane_pwm lane st) (BARRIER_CLOSED_ANGLE cfg)) \<noteq> None))"
  by (auto simp: is_lane_def lane_open_def lane_timer_def lane_pwm_def
        auto_close_step_entry auto_close_step_exit)

text \<open>
  Claim C4, as amended. \<^verbatim>\<open>open_barrier\<close> has no test of the lane's state: for either
  lane, whether it is open or not, a call whose servo calls return drives the servo to
  the open angle (the two \<^verbatim>\<open>ChangeDutyCycle\<close> calls), sets the lane's flag, stamps the
  lane's timer with the current time and returns normally. On a lane that is already
  open this re-stamps the timer and issues the servo calls again.
\<close>

theorem open_drives_servo_and_restamps:
  assumes "is_lane lane" and "lane_pwm lane st = Some p"
    and "drv p (duty_cycle (BARRIER_OPEN_ANGLE cfg)) = None" and "drv p 0 = None"
  shows "emitted (open_barrier cfg drv now lane st)
           = [ChangeDutyCycle p (duty_cycle (BARRIER_OPEN_ANGLE cfg)), ChangeDutyCycle p 0] \<and>
         result (open_barrier cfg drv now lane st) = Inr () \<and>
         new_state (open_barrier cfg drv now lane st)
           = (if lane = ''entry'' then st\<lparr>entry_open := True, entry_timer := now\<rparr>
              else st\<lparr>exit_open := True, exit_timer := now\<rparr>) \<and>
         lane_open lane (new_state (open_barrier cfg drv now lane st)) \<and>
         lane_timer lane (new_state (open_barrier cfg drv now lane st)) = now"
  using assms
  by (simp add: open_barrier_cases set_servo_angle_ok lane_open_def lane_timer_def is_lane_def)

text \<open>The theorem on the entry lane, twice in a row: the second call, on the lane the
  first one opened, re-stamps the timer.\<close>

theorem open_drives_servo_and_restamps_witness:
  "is_lane ''entry'' \<and>
   entry_open (new_state (open_barrier shipped_config working_driver 100 ''entry'' ready_handler)) \<and>
   lane_timer ''entry'' (new_state (open_barrier shipped_config working_driver 107 ''entry''
      (new_state (open_barrier shipped_config working_driver 100 ''entry'' ready_handler)))) = 107"
proof -
  let ?st = "new_state (open_barrier shipped_config working_driver 100 ''entry'' ready_handler)"
  have l: "is_lane ''entry''" by (simp add: is_lane_def)
  have p0: "lane_pwm ''entry'' ready_handler = Some 18"
    by (simp add: lane_pwm_def ready_handler_def)
  have d1: "working_driver 18 (duty_cycle (BARRIER_OPEN_ANGLE shipped_config)) = None"
    and d2: "working_driver 18 0 = None"
    by (simp_all add: working_driver_def)
  note first = open_drives_servo_and_restamps
    [where lane = "''entry''" and st = ready_handler and p = 18 and drv = working_driver
       and cfg = shipped_config and now = 100, OF l p0 d1 d2]
  have p1: "lane_pwm ''entry'' ?st = Some 18"
    using first by (simp add: lane_pwm_def ready_handler_def)
  note second = open_drives_servo_and_restamps
    [where lane = "''entry''" and st = ?st and p = 18 and drv = working_driver
       and cfg = shipped_config and now = 107, OF l p1 d1 d2]
  have a: "entry_open ?st" using first by (simp add: lane_open_def)
  have b: "lane_timer ''entry'' (new_state (open_barrier shipped_config working_driver 107 ''entry'' ?st)) = 107"
    using second by blast
  show ?thesis using l a b by blast
qed

text \<open>Against claim C4 as stated: the entry lane is open after a first call, and a
  second call on it issues the servo calls of an opening again.\<close>

theorem open_on_open_lane_counterexample:
  "entry_open (new_state (open_barrier shipped_config working_driver 100 ''entry'' ready_handler)) \<and>
   emitted (open_barrier shipped_config working_driver 101 ''entry''
      (new_state (open_barrier shipped_config working_driver 100 ''entry'' ready_handler)))
     = [ChangeDutyCycle 18 (15 / 2), ChangeDutyCycle 18 0]"
  by (simp add: open_barrier_def set_servo_angle_def working_driver_def ready_handler_def
        barrier_handler_init_def shipped_config_def duty_cycle_def)

text \<open>
  Claim C6, as amended. When the servo call inside \<^verbatim>\<open>open_barrier\<close> or
  \<^verbatim>\<open>close_barrier\<close> raises, the state of the handler is left as it was, so a later call
  starts from the same state; the exception is caught and logged as an error, and the
  call returns \<^verbatim>\<open>None\<close> to its caller as a successful one does.
\<close>

theorem failed_actuation_is_logged_not_raised:
  assumes "is_lane lane"
  shows "(fst (set_servo_angle drv (lane_pwm lane st) (BARRIER_OPEN_ANGLE cfg)) \<noteq> None \<longrightarrow>
            new_state (open_barrier cfg drv now lane st) = st \<and>
            result (open_barrier cfg drv now lane st) = Inr () \<and>
            last (emitted (open_barrier cfg drv now lane st))
              = BarrierLogError (''Error opening '' @ lane @ '' barrier'')) \<and>
         (lane_open lane st \<and>
          fst (set_servo_angle drv (lane_pwm lane st) (BARRIER_CLOSED_ANGLE cfg)) \<noteq> None \<longrightarrow>
            new_state (close_barrier cfg drv lane st) = st \<and>
            result (close_barrier cfg drv lane st) = Inr () \<and>
            last (emitted (close_barrier cfg drv lane st))
              = BarrierLogError (''Error closing '' @ lane @ '' barrier''))"
  using assms
  by (auto simp: open_barrier_cases close_barrier_cases split: prod.splits option.splits)

text \<open>The theorem on the entry lane with a driver that always raises: once on the
  closed lane (opening fails), once on the opened lane (closing fails).\<close>

theorem failed_actuation_is_logged_not_raised_witness:
  "is_lane ''entry'' \<and>
   fst (set_servo_angle failing_driver (lane_pwm ''entry'' ready_handler)
          (BARRIER_OPEN_ANGLE shipped_config)) \<noteq> None \<and>
   new_state (open_barrier shipped_config failing_driver 100 ''entry'' ready_handler) = ready_handler \<and>
   lane_open ''entry'' (new_state (open_barrier shipped_config working_driver 100 ''entry'' ready_handler)) \<and>
   fst (set_servo_angle failing_driver
          (lane_pwm ''entry'' (new_state (open_barrier shipped_config working_driver 100 ''entry'' ready_handler)))
          (BARRIER_CLOSED_ANGLE shipped_config)) \<noteq> None \<and>
   new_state (close_barrier shipped_config failing_driver ''entry''
       (new_state (open_barrier shipped_config working_driver 100 ''entry'' ready_handler)))
     = new_state (open_barrier shipped_config working_driver 100 ''entry'' ready_handler)"
proof -
  let ?st = "new_state (open_barrier shipped_config working_driver 100 ''entry'' ready_handler)"
  have l: "is_lane ''entry''" by (simp add: is_lane_def)
  have f1: "fst (set_servo_angle failing_driver (lane_pwm ''entry'' ready_handler)
          (BARRIER_OPEN_ANGLE shipped_config)) \<noteq> None"
    by (simp add: set_servo_angle_def failing_driver_def lane_pwm_def ready_handler_def)
  have o: "lane_open ''entry'' ?st"
    by (simp add: open_barrier_def set_servo_angle_def working_driver_def ready_handler_def lane_open_def)
  have f2: "fst (set_servo_angle failing_driver (lane_pwm ''entry'' ?st)
          (BARRIER_CLOSED_ANGLE shipped_config)) \<noteq> None"
    by (simp add: open_barrier_def set_servo_angle_def working_driver_def failing_driver_def
          lane_pwm_def ready_handler_def)
  show ?thesis
    using l f1 o f2
      failed_actuation_is_logged_not_raised[OF l, of failing_driver ready_handler shipped_config 100]
      failed_actuation_is_logged_not_raised[OF l, of failing_driver ?st shipped_config 100]
    by simp
qed

text \<open>Against claim C6 as stated: the servo call raises, and the caller gets the same
  result as from a call whose servo call returned.\<close>

theorem failed_actuation_counterexample:
  "fst (set_servo_angle failing_driver (entry_pwm ready_handler) (BARRIER_OPEN_ANGLE shipped_config))
     = Some (HardwareError ''servo fault'') \<and>
   result (open_barrier shipped_config failing_driver 100 ''entry'' ready_handler) = Inr () \<and>
   result (open_barrier shipped_config failing_driver 100 ''entry'' ready_handler)
     = result (open_barrier shipped_config working_driver 100 ''entry'' ready_handler)"
  by (simp add: open_barrier_def set_servo_angle_def working_driver_def failing_driver_def
        ready_handler_def barrier_handler_init_def)


lemma open_barrier_success:
  assumes "is_lane lane"
    and "fst (set_servo_angle drv (lane_pwm lane st) (BARRIER_OPEN_ANGLE cfg)) = None"
  shows "lane_open lane (new_state (open_barrier cfg drv now lane st))"
    and "lane_timer lane (new_state (open_barrier cfg drv now lane st)) = now"
    and "lane_pwm lane (new_state (open_barrier cfg drv now lane st)) = lane_pwm lane st"
  using assms
  by (auto simp: is_lane_def open_barrier_def lane_open_def lane_timer_def lane_pwm_def
        split: prod.splits option.splits)

lemma close_barrier_success:
  assumes "is_lane lane" and "lane_open lane st"
    and "fst (set_servo_angle drv (lane_pwm lane st) (BARRIER_CLOSED_ANGLE cfg)) = None"
  shows "\<not> lane_open lane (new_state (close_barrier cfg drv lane st))"
    and "lane_timer lane (new_state (close_barrier cfg drv lane st)) = 0"
  using assms
  by (auto simp: is_lane_def close_barrier_def lane_open_def lane_timer_def lane_pwm_def
        split: prod.splits option.splits)

lemma close_barrier_closed:
  "\<not> lane_open lane st \<Longrightarrow> is_lane lane \<Longrightarrow>
   close_barrier cfg drv lane st = \<lparr> new_state = st, emitted = [], result = Inr () \<rparr>"
  by (simp add: close_barrier_cases)

lemma close_exit_keeps_entry_timer:
  "entry_timer (new_state (close_barrier cfg drv ''exit'' st)) = entry_timer st"
  by (simp add: close_barrier_def split: prod.splits option.splits)

lemma auto_close_step_timer:
  assumes "is_lane lane" and "lane_open lane st"
    and "now - lane_timer lane st > BARRIER_OPEN_DURATION cfg"
    and "fst (set_servo_angle drv (lane_pwm lane st) (BARRIER_CLOSED_ANGLE cfg)) = None"
  shows "lane_timer lane (new_state (auto_close_step cfg drv now undisturbed st)) = 0"
proof (cases "lane = ''entry''")
  case True
  have "entry_timer (new_state (close_barrier cfg drv ''entry'' st)) = 0"
    using close_barrier_success(2)[OF assms(1,2,4)] True by (simp add: lane_timer_def)
  then show ?thesis
    using assms True
    by (simp add: auto_close_step_undisturbed Let_def lane_timer_def lane_open_def
          close_exit_keeps_entry_timer)
next
  case False
  with assms(1) have ex: "lane = ''exit''" by (simp add: is_lane_def)
  let ?st1 = "new_state (if entry_open st \<and> now - entry_timer st > BARRIER_OPEN_DURATION cfg
                then close_barrier cfg drv ''entry'' st
                else \<lparr> new_state = st, emitted = [], result = Inr () \<rparr>)"
  have same: "exit_open ?st1 = exit_open st" "exit_timer ?st1 = exit_timer st"
    "exit_pwm ?st1 = exit_pwm st"
    by (simp_all add: close_barrier_other_lane)
  have "lane_timer ''exit'' (new_state (close_barrier cfg drv ''exit'' ?st1)) = 0"
    using assms(2,3,4) ex same
    by (intro close_barrier_success(2)) (simp_all add: is_lane_def lane_open_def lane_pwm_def)
  then show ?thesis
    using assms ex same
    by (simp add: auto_close_step_undisturbed Let_def lane_timer_def lane_open_def)
qed

text \<open>Whatever the other threads do in the two gaps, the handling of a lane ends without
  a servo call and without a write of its own unless both reads favour a closing; and
  when they do, it is the call of \<^verbatim>\<open>close_barrier\<close> on the state the lock is taken in.\<close>

lemma auto_close_lane_idle:
  assumes "is_lane lane"
    and "\<not> (lane_open lane st \<and>
            now - lane_timer lane (others_test st) > BARRIER_OPEN_DURATION cfg)"
  shows "auto_close_lane cfg drv now lane others_test others_close st
           = \<lparr> new_state = (if lane_open lane st then others_test st else st),
               emitted = [], result = Inr () \<rparr>"
  using assms
  by (auto simp: is_lane_def auto_close_lane_def auto_close_entry_def auto_close_exit_def
        lane_open_def lane_timer_def)

lemma auto_close_lane_calls_close:
  assumes "is_lane lane" and "lane_open lane st"
    and "now - lane_timer lane (others_test st) > BARRIER_OPEN_DURATION cfg"
  shows "auto_close_lane cfg drv now lane others_test others_close st
           = close_barrier cfg drv lane (others_close (others_test st))"
  using assms
  by (auto simp: is_lane_def auto_close_lane_def auto_close_entry_def auto_close_exit_def
        lane_open_def lane_timer_def)

text \<open>
  Claim C3, as amended. For either lane, and whatever other threads do meanwhile, the
  watchdog calls \<^verbatim>\<open>close_barrier\<close> for the lane if and only if it read the lane's flag
  as open and then read a timer with \<open>now - opened_at\<close> strictly greater than
  \<^verbatim>\<open>BARRIER_OPEN_DURATION\<close>; otherwise it issues no servo call and writes nothing. In an
  iteration that no other thread disturbs, the watchdog closes the lane only if the lane
  is open and \<open>now - opened_at\<close> is strictly greater than the duration, and exactly then
  when the closing servo call returns; and after an opening at \<open>t_open\<close> whose servo call
  returned before the iteration started (a first one, or a refresh of an open lane), the
  iteration leaves the lane open while \<open>now - t_open\<close> is at most the duration. With a
  duration of 5 seconds and the entry lane opened at 100, the status is open after the
  undisturbed iteration at 104.9 and closed after the one at 105.1.
\<close>

theorem watchdog_closes_strictly_after_duration:
  assumes "is_lane lane"
  shows "(\<not> (lane_open lane st \<and>
              now - lane_timer lane (others_test st) > BARRIER_OPEN_DURATION cfg) \<longrightarrow>
            auto_close_lane cfg drv now lane others_test others_close st
              = \<lparr> new_state = (if lane_open lane st then others_test st else st),
                  emitted = [], result = Inr () \<rparr>) \<and>
         (lane_open lane st \<and>
          now - lane_timer lane (others_test st) > BARRIER_OPEN_DURATION cfg \<longrightarrow>
            auto_close_lane cfg drv now lane others_test others_close st
              = close_barrier cfg drv lane (others_close (others_test st))) \<and>
         (lane_open lane st \<and> \<not> lane_open lane (new_state (auto_close_step cfg drv now undisturbed st))
            \<longrightarrow> now - lane_timer lane st > BARRIER_OPEN_DURATION cfg) \<and>
         (fst (set_servo_angle drv (lane_pwm lane st) (BARRIER_CLOSED_ANGLE cfg)) = None \<longrightarrow>
            (lane_open lane st \<and> \<not> lane_open lane (new_state (auto_close_step cfg drv now undisturbed st)))
              = (lane_open lane st \<and> now - lane_timer lane st > BARRIER_OPEN_DURATION cfg)) \<and>
         (fst (set_servo_angle drv_open (lane_pwm lane st) (BARRIER_OPEN_ANGLE cfg)) = None \<and>
          now - t_open \<le> BARRIER_OPEN_DURATION cfg \<longrightarrow>
            lane_open lane (new_state (auto_close_step cfg drv now undisturbed
                (new_state (open_barrier cfg drv_open t_open lane st))))) \<and>
         get_status (new_state (auto_close_step shipped_config working_driver (1049 / 10) undisturbed
             (new_state (open_barrier shipped_config working_driver 100 ''entry'' ready_handler))))
           = (''open'', ''closed'') \<and>
         get_status (new_state (auto_close_step shipped_config working_driver (1051 / 10) undisturbed
             (new_state (open_barrier shipped_config working_driver 100 ''entry'' ready_handler))))
           = (''closed'', ''closed'')"
proof -
  let ?st1 = "new_state (open_barrier cfg drv_open t_open lane st)"
  have idle: "\<not> (lane_open lane st \<and>
              now - lane_timer lane (others_test st) > BARRIER_OPEN_DURATION cfg) \<longrightarrow>
            auto_close_lane cfg drv now lane others_test others_close st
              = \<lparr> new_state = (if lane_open lane st then others_test st else st),
                  emitted = [], result = Inr () \<rparr>"
    using auto_close_lane_idle[OF assms] by blast
  have calls: "lane_open lane st \<and>
          now - lane_timer lane (others_test st) > BARRIER_OPEN_DURATION cfg \<longrightarrow>
            auto_close_lane cfg drv now lane others_test others_close st
              = close_barrier cfg drv lane (others_close (others_test st))"
    using auto_close_lane_calls_close[OF assms] by blast
  have a: "lane_open lane st \<and> \<not> lane_open lane (new_state (auto_close_step cfg drv now undisturbed st))
            \<longrightarrow> now - lane_timer lane st > BARRIER_OPEN_DURATION cfg"
    using auto_close_step_lane[OF assms, of cfg drv now st] by auto
  have b: "fst (set_servo_angle drv (lane_pwm lane st) (BARRIER_CLOSED_ANGLE cfg)) = None \<longrightarrow>
            (lane_open lane st \<and> \<not> lane_open lane (new_state (auto_close_step cfg drv now undisturbed st)))
              = (lane_open lane st \<and> now - lane_timer lane st > BARRIER_OPEN_DURATION cfg)"
    using auto_close_step_lane[OF assms, of cfg drv now st] by auto
  have c: "fst (set_servo_angle drv_open (lane_pwm lane st) (BARRIER_OPEN_ANGLE cfg)) = None \<and>
          now - t_open \<le> BARRIER_OPEN_DURATION cfg \<longrightarrow>
            lane_open lane (new_state (auto_close_step cfg drv now undisturbed ?st1))"
  proof
    assume h: "fst (set_servo_angle drv_open (lane_pwm lane st) (BARRIER_OPEN_ANGLE cfg)) = None \<and>
          now - t_open \<le> BARRIER_OPEN_DURATION cfg"
    then have "lane_open lane ?st1" "lane_timer lane ?st1 = t_open"
      using open_barrier_success[OF assms, of drv_open st cfg t_open] by simp_all
    then show "lane_open lane (new_state (auto_close_step cfg drv now undisturbed ?st1))"
      using h auto_close_step_lane[OF assms, of cfg drv now ?st1] by simp
  qed
  have st100: "new_state (open_barrier shipped_config working_driver 100 ''entry'' ready_handler)
      = ready_handler\<lparr>entry_open := True, entry_timer := 100\<rparr>"
    by (simp add: open_barrier_def set_servo_angle_def working_driver_def ready_handler_def)
  have d: "get_status (new_state (auto_close_step shipped_config working_driver (1049 / 10) undisturbed
             (new_state (open_barrier shipped_config working_driver 100 ''entry'' ready_handler))))
           = (''open'', ''closed'')"
    unfolding st100
    by (simp add: auto_close_step_undisturbed get_status_def ready_handler_def barrier_handler_init_def
          shipped_config_def)
  have e: "get_status (new_state (auto_close_step shipped_config working_driver (1051 / 10) undisturbed
             (new_state (open_barrier shipped_config working_driver 100 ''entry'' ready_handler))))
           = (''closed'', ''closed'')"
    unfolding st100
    by (simp add: auto_close_step_undisturbed get_status_def ready_handler_def barrier_handler_init_def
          shipped_config_def close_barrier_def set_servo_angle_def working_driver_def)
  from idle calls a b c d e show ?thesis by blast
qed

text \<open>Against claim C3 as stated: the entry lane is open and exactly
  \<^verbatim>\<open>BARRIER_OPEN_DURATION\<close> has passed since it was opened, and the undisturbed
  iteration of the watchdog leaves it open and issues no servo call.\<close>

theorem watchdog_boundary_counterexample:
  "entry_open (new_state (open_barrier shipped_config working_driver 100 ''entry'' ready_handler)) \<and>
   105 - entry_timer (new_state (open_barrier shipped_config working_driver 100 ''entry'' ready_handler))
     \<ge> BARRIER_OPEN_DURATION shipped_config \<and>
   entry_open (new_state (auto_close_step shipped_config working_driver 105 undisturbed
      (new_state (open_barrier shipped_config working_driver 100 ''entry'' ready_handler)))) \<and>
   emitted (auto_close_step shipped_config working_driver 105 undisturbed
      (new_state (open_barrier shipped_config working_driver 100 ''entry'' ready_handler))) = []"
  by (simp add: auto_close_step_undisturbed open_barrier_def set_servo_angle_def working_driver_def
        ready_handler_def barrier_handler_init_def shipped_config_def)

text \<open>The theorem on the exit lane, opened at 200. With a timer read at exactly the
  duration (205) the watchdog does nothing; at 206 it calls \<^verbatim>\<open>close_barrier\<close>, and the
  undisturbed iteration closes the lane; after a refresh at 203 that has returned, the
  undisturbed iteration at 206 leaves the lane open.\<close>

theorem watchdog_closes_strictly_after_duration_witness:
  "is_lane ''exit'' \<and>
   lane_open ''exit'' (ready_handler\<lparr>exit_open := True, exit_timer := 200\<rparr>) \<and>
   \<not> (lane_open ''exit'' (ready_handler\<lparr>exit_open := True, exit_timer := 200\<rparr>) \<and>
      205 - lane_timer ''exit'' (ready_handler\<lparr>exit_open := True, exit_timer := 200\<rparr>)
        > BARRIER_OPEN_DURATION shipped_config) \<and>
   emitted (auto_close_lane shipped_config working_driver 205 ''exit'' (\<lambda>st. st) (\<lambda>st. st)
              (ready_handler\<lparr>exit_open := True, exit_timer := 200\<rparr>)) = [] \<and>
   206 - lane_timer ''exit'' (ready_handler\<lparr>exit_open := True, exit_timer := 200\<rparr>)
     > BARRIER_OPEN_DURATION shipped_config \<and>
   auto_close_lane shipped_config working_driver 206 ''exit'' (\<lambda>st. st) (\<lambda>st. st)
       (ready_handler\<lparr>exit_open := True, exit_timer := 200\<rparr>)
     = close_barrier shipped_config working_driver ''exit''
         (ready_handler\<lparr>exit_open := True, exit_timer := 200\<rparr>) \<and>
   fst (set_servo_angle working_driver
          (lane_pwm ''exit'' (ready_handler\<lparr>exit_open := True, exit_timer := 200\<rparr>))
          (BARRIER_CLOSED_ANGLE shipped_config)) = None \<and>
   \<not> lane_open ''exit'' (new_state (auto_close_step shipped_config working_driver 206 undisturbed
         (ready_handler\<lparr>exit_open := True, exit_timer := 200\<rparr>))) \<and>
   fst (set_servo_angle working_driver
          (lane_pwm ''exit'' (ready_handler\<lparr>exit_open := True, exit_timer := 200\<rparr>))
          (BARRIER_OPEN_ANGLE shipped_config)) = None \<and>
   (206 :: real) - 203 \<le> BARRIER_OPEN_DURATION shipped_config \<and>
   lane_open ''exit'' (new_state (auto_close_step shipped_config working_driver 206 undisturbed
      (new_state (open_barrier shipped_config working_driver 203 ''exit''
         (ready_handler\<lparr>exit_open := True, exit_timer := 200\<rparr>)))))"
proof -
  let ?st = "ready_handler\<lparr>exit_open := True, exit_timer := 200\<rparr>"
  have l: "is_lane ''exit''" by (simp add: is_lane_def)
  have o: "lane_open ''exit'' ?st" by (simp add: lane_open_def)
  have n: "\<not> (lane_open ''exit'' ?st \<and>
      205 - lane_timer ''exit'' ?st > BARRIER_OPEN_DURATION shipped_config)"
    by (simp add: lane_timer_def shipped_config_def)
  have c: "fst (set_servo_angle working_driver (lane_pwm ''exit'' ?st)
                  (BARRIER_CLOSED_ANGLE shipped_config)) = None"
    by (simp add: set_servo_angle_def working_driver_def lane_pwm_def ready_handler_def)
  have t: "206 - lane_timer ''exit'' ?st > BARRIER_OPEN_DURATION shipped_config"
    by (simp add: lane_timer_def shipped_config_def)
  have p: "fst (set_servo_angle working_driver (lane_pwm ''exit'' ?st)
                  (BARRIER_OPEN_ANGLE shipped_config)) = None"
    by (simp add: set_servo_angle_def working_driver_def lane_pwm_def ready_handler_def)
  have r: "(206 :: real) - 203 \<le> BARRIER_OPEN_DURATION shipped_config"
    by (simp add: shipped_config_def)
  note inst = watchdog_closes_strictly_after_duration
    [where lane = "''exit''" and st = ?st and cfg = shipped_config and drv = working_driver
       and drv_open = working_driver and t_open = 203
       and others_test = "\<lambda>st. st" and others_close = "\<lambda>st. st", OF l]
  have "auto_close_lane shipped_config working_driver 205 ''exit'' (\<lambda>st. st) (\<lambda>st. st) ?st
          = \<lparr> new_state = (if lane_open ''exit'' ?st then ?st else ?st),
              emitted = [], result = Inr () \<rparr>"
    using inst[where now = 205] n by blast
  then have idle: "emitted (auto_close_lane shipped_config working_driver 205 ''exit''
                     (\<lambda>st. st) (\<lambda>st. st) ?st) = []"
    by (rule arg_cong[where f = emitted, THEN trans]) simp
  have calls: "auto_close_lane shipped_config working_driver 206 ''exit'' (\<lambda>st. st) (\<lambda>st. st) ?st
     = close_barrier shipped_config working_driver ''exit'' ?st"
    using inst[where now = 206] o t by blast
  have closed: "\<not> lane_open ''exit'' (new_state (auto_close_step shipped_config working_driver 206 undisturbed ?st))"
    using inst[where now = 206] o c t by blast
  have kept: "lane_open ''exit'' (new_state (auto_close_step shipped_config working_driver 206 undisturbed
      (new_state (open_barrier shipped_config working_driver 203 ''exit'' ?st))))"
    using inst[where now = 206] p r by blast
  from l o n idle t calls c closed p r kept show ?thesis by blast
qed

text \<open>
  The gap between the watchdog's test and its call of \<^verbatim>\<open>close_barrier\<close>. The entry lane
  was opened at 100. The iteration of 105.1 reads the flag and the old timer while a
  refreshing \<^verbatim>\<open>open_barrier\<close> holds the lock; the refresh stamps the timer at 105.3 and
  returns; the watchdog's \<^verbatim>\<open>close_barrier\<close> then finds the flag set and closes the lane
  that was refreshed a moment ago.
\<close>

lemma refresh_between_test_and_close:
  "\<not> entry_open (new_state
       (auto_close_lane shipped_config working_driver (1051 / 10) ''entry'' (\<lambda>st. st)
          (\<lambda>st. new_state (open_barrier shipped_config working_driver (1053 / 10) ''entry'' st))
          (ready_handler\<lparr>entry_open := True, entry_timer := 100\<rparr>)))"
  by (simp add: auto_close_lane_def auto_close_entry_def close_barrier_def open_barrier_def
        set_servo_angle_def working_driver_def ready_handler_def barrier_handler_init_def
        shipped_config_def)

text \<open>
  Claim C8. In every reachable state of the handler, for each lane, the timer is nonzero
  if and only if the lane's flag is set. The handler starts with both lanes closed and
  both timers 0; an opening whose servo call returns sets the flag and stamps the timer
  (with a clock value, which is nonzero); a closing whose servo call returns, by
  \<^verbatim>\<open>close_barrier\<close> or by an undisturbed iteration of the watchdog (whose closing is a
  call of \<^verbatim>\<open>close_barrier\<close>), clears the flag and the timer; and
  \<^verbatim>\<open>close_barrier\<close> on a closed lane changes nothing, issues nothing and returns normally.
\<close>

theorem timer_set_iff_open:
  "(reachable cfg st \<longrightarrow> timer_invariant st) \<and>
   \<not> entry_open barrier_handler_init \<and> \<not> exit_open barrier_handler_init \<and>
   entry_timer barrier_handler_init = 0 \<and> exit_timer barrier_handler_init = 0 \<and>
   (is_lane lane \<and> now \<noteq> 0 \<and>
    fst (set_servo_angle drv (lane_pwm lane st) (BARRIER_OPEN_ANGLE cfg)) = None \<longrightarrow>
      lane_open lane (new_state (open_barrier cfg drv now lane st)) \<and>
      lane_timer lane (new_state (open_barrier cfg drv now lane st)) = now \<and>
      lane_timer lane (new_state (open_barrier cfg drv now lane st)) \<noteq> 0) \<and>
   (is_lane lane \<and> lane_open lane st \<and>
    fst (set_servo_angle drv (lane_pwm lane st) (BARRIER_CLOSED_ANGLE cfg)) = None \<longrightarrow>
      \<not> lane_open lane (new_state (close_barrier cfg drv lane st)) \<and>
      lane_timer lane (new_state (close_barrier cfg drv lane st)) = 0) \<and>
   (is_lane lane \<and> lane_open lane st \<and> now - lane_timer lane st > BARRIER_OPEN_DURATION cfg \<and>
    fst (set_servo_angle drv (lane_pwm lane st) (BARRIER_CLOSED_ANGLE cfg)) = None \<longrightarrow>
      \<not> lane_open lane (new_state (auto_close_step cfg drv now undisturbed st)) \<and>
      lane_timer lane (new_state (auto_close_step cfg drv now undisturbed st)) = 0) \<and>
   (is_lane lane \<and> \<not> lane_open lane st \<longrightarrow>
      close_barrier cfg drv lane st = \<lparr> new_state = st, emitted = [], result = Inr () \<rparr>)"
proof -
  have inv: "reachable cfg st \<longrightarrow> timer_invariant st"
    using reachable_invariant by blast
  have init: "\<not> entry_open barrier_handler_init \<and> \<not> exit_open barrier_handler_init \<and>
      entry_timer barrier_handler_init = 0 \<and> exit_timer barrier_handler_init = 0"
    by (simp add: barrier_handler_init_def)
  have opened: "is_lane lane \<and> now \<noteq> 0 \<and>
    fst (set_servo_angle drv (lane_pwm lane st) (BARRIER_OPEN_ANGLE cfg)) = None \<longrightarrow>
      lane_open lane (new_state (open_barrier cfg drv now lane st)) \<and>
      lane_timer lane (new_state (open_barrier cfg drv now lane st)) = now \<and>
      lane_timer lane (new_state (open_barrier cfg drv now lane st)) \<noteq> 0"
    using open_barrier_success[of lane drv st cfg now] by simp
  have closed: "is_lane lane \<and> lane_open lane st \<and>
    fst (set_servo_angle drv (lane_pwm lane st) (BARRIER_CLOSED_ANGLE cfg)) = None \<longrightarrow>
      \<not> lane_open lane (new_state (close_barrier cfg drv lane st)) \<and>
      lane_timer lane (new_state (close_barrier cfg drv lane st)) = 0"
    using close_barrier_success[of lane st drv cfg] by simp
  have auto_closed: "is_lane lane \<and> lane_open lane st \<and>
    now - lane_timer lane st > BARRIER_OPEN_DURATION cfg \<and>
    fst (set_servo_angle drv (lane_pwm lane st) (BARRIER_CLOSED_ANGLE cfg)) = None \<longrightarrow>
      \<not> lane_open lane (new_state (auto_close_step cfg drv now undisturbed st)) \<and>
      lane_timer lane (new_state (auto_close_step cfg drv now undisturbed st)) = 0"
    using auto_close_step_lane[of lane cfg drv now st] auto_close_step_timer[where lane = lane and st = st and now = now and cfg = cfg and drv = drv]
    by simp
  have noop: "is_lane lane \<and> \<not> lane_open lane st \<longrightarrow>
      close_barrier cfg drv lane st = \<lparr> new_state = st, emitted = [], result = Inr () \<rparr>"
    using close_barrier_closed[of lane st cfg drv] by simp
  from inv init opened closed auto_closed noop show ?thesis by blast
qed

text \<open>The theorem at the state reached by \<^verbatim>\<open>setup\<close> and one opening of the entry lane
  at time 100, which is then closed again; the exit lane stays closed throughout.\<close>

theorem timer_set_iff_open_witness:
  "reachable shipped_config
     (new_state (open_barrier shipped_config working_driver 100 ''entry'' ready_handler)) \<and>
   timer_invariant
     (new_state (open_barrier shipped_config working_driver 100 ''entry'' ready_handler)) \<and>
   is_lane ''entry'' \<and> (100 :: real) \<noteq> 0 \<and>
   fst (set_servo_angle working_driver (lane_pwm ''entry'' ready_handler)
          (BARRIER_OPEN_ANGLE shipped_config)) = None \<and>
   lane_open ''entry''
     (new_state (open_barrier shipped_config working_driver 100 ''entry'' ready_handler)) \<and>
   fst (set_servo_angle working_driver
          (lane_pwm ''entry''
             (new_state (open_barrier shipped_config working_driver 100 ''entry'' ready_handler)))
          (BARRIER_CLOSED_ANGLE shipped_config)) = None \<and>
   lane_timer ''entry'' (new_state (close_barrier shipped_config working_driver ''entry''
     (new_state (open_barrier shipped_config working_driver 100 ''entry'' ready_handler)))) = 0 \<and>
   \<not> lane_open ''exit'' ready_handler \<and>
   close_barrier shipped_config working_driver ''exit'' ready_handler
     = \<lparr> new_state = ready_handler, emitted = [], result = Inr () \<rparr>"
proof -
  let ?st = "new_state (open_barrier shipped_config working_driver 100 ''entry'' ready_handler)"
  have "reachable shipped_config (barrier_handler_init\<lparr>entry_pwm := Some 18\<rparr>)"
    by (intro reach_setup_entry reach_init)
  then have "reachable shipped_config (barrier_handler_init\<lparr>entry_pwm := Some 18\<rparr>\<lparr>exit_pwm := Some 13\<rparr>)"
    by (rule reach_setup_exit)
  then have ready: "reachable shipped_config ready_handler"
    by (simp add: ready_handler_def)
  have r: "reachable shipped_config ?st"
    by (rule reach_open[OF ready]) simp
  have l: "is_lane ''entry''" and l': "is_lane ''exit''" by (simp_all add: is_lane_def)
  have n: "(100 :: real) \<noteq> 0" by simp
  have s: "fst (set_servo_angle working_driver (lane_pwm ''entry'' ready_handler)
          (BARRIER_OPEN_ANGLE shipped_config)) = None"
    by (simp add: set_servo_angle_def working_driver_def lane_pwm_def ready_handler_def)
  have i: "timer_invariant ?st"
    using timer_set_iff_open[where cfg = shipped_config and st = ?st] r by blast
  have o: "lane_open ''entry'' ?st"
    using timer_set_iff_open[where cfg = shipped_config and st = ready_handler
        and lane = "''entry''" and now = 100 and drv = working_driver] l n s by blast
  have c: "fst (set_servo_angle working_driver (lane_pwm ''entry'' ?st)
          (BARRIER_CLOSED_ANGLE shipped_config)) = None"
    by (simp add: set_servo_angle_def working_driver_def lane_pwm_def ready_handler_def
          open_barrier_def)
  have z: "lane_timer ''entry'' (new_state (close_barrier shipped_config working_driver ''entry'' ?st)) = 0"
    using timer_set_iff_open[where cfg = shipped_config and st = ?st
        and lane = "''entry''" and drv = working_driver] l o c by blast
  have x: "\<not> lane_open ''exit'' ready_handler"
    by (simp add: lane_open_def ready_handler_def barrier_handler_init_def)
  have y: "close_barrier shipped_config working_driver ''exit'' ready_handler
     = \<lparr> new_state = ready_handler, emitted = [], result = Inr () \<rparr>"
    using timer_set_iff_open[where cfg = shipped_config and st = ready_handler
        and lane = "''exit''" and drv = working_driver] l' x by blast
  from r i l n s o c z x y show ?thesis by blast
qed

section \<open>Properties of the detection cooldown\<close>

lemma monitor_camera_step_detection:
  "last_qr_times st camera_type = Some t0 \<Longrightarrow>
   monitor_camera_step cfg has_callback camera_type now (Some (Some qr_data # rest)) st =
     (if now - t0 < QR_COOLDOWN_SECONDS cfg then (st, [])
      else (st\<lparr>last_qr_times := (last_qr_times st)(camera_type \<mapsto> now)\<rparr>,
            if has_callback then [QrDetectedCallback qr_data camera_type] else []))"
  by (simp add: monitor_camera_step_def)

lemma monitor_camera_step_other_channel:
  "other \<noteq> camera_type \<Longrightarrow>
   last_qr_times (fst (monitor_camera_step cfg has_callback other now frame st)) camera_type
     = last_qr_times st camera_type"
  by (simp add: monitor_camera_step_def split: option.splits list.splits)

text \<open>
  Claim C2. On either channel, a detection at time \<open>now\<close> is judged against the
  channel's last trigger \<open>t_last\<close>: it is suppressed, with no change of state and no
  callback, when \<open>now - t_last\<close> is strictly less than \<^verbatim>\<open>QR_COOLDOWN_SECONDS\<close>, and
  otherwise admitted: the channel's last trigger becomes \<open>now\<close> and the callback (when
  one is registered) fires. So for a pair of detections on one channel of which the
  first is admitted at \<open>t_first\<close>: the channel's last trigger is then \<open>t_first\<close>; the
  second, at \<open>t_second\<close>, is suppressed when \<open>t_second - t_first\<close> is strictly less than
  the cooldown, and otherwise admitted with the last trigger set to \<open>t_second\<close>. A
  detection on the other channel is judged by that channel's own last trigger only:
  outside its own cooldown it is admitted, whatever the cooldown state of the first
  channel, and it leaves the first channel's last trigger alone.
\<close>

theorem cooldown_suppresses_second_event:
  assumes "last_qr_times st camera_type = Some t_last"
  shows "monitor_camera_step cfg has_callback camera_type now (Some (Some qr_data # rest)) st
           = (if now - t_last < QR_COOLDOWN_SECONDS cfg then (st, [])
              else (st\<lparr>last_qr_times := (last_qr_times st)(camera_type \<mapsto> now)\<rparr>,
                    if has_callback then [QrDetectedCallback qr_data camera_type] else [])) \<and>
         (\<not> t_first - t_last < QR_COOLDOWN_SECONDS cfg \<and>
          after_first = fst (monitor_camera_step cfg has_callback camera_type t_first
                               (Some (Some first_qr # rest_first)) st) \<longrightarrow>
            last_qr_times after_first camera_type = Some t_first \<and>
            (t_second - t_first < QR_COOLDOWN_SECONDS cfg \<longrightarrow>
               monitor_camera_step cfg has_callback camera_type t_second
                   (Some (Some second_qr # rest_second)) after_first
                 = (after_first, [])) \<and>
            (\<not> t_second - t_first < QR_COOLDOWN_SECONDS cfg \<longrightarrow>
               monitor_camera_step cfg has_callback camera_type t_second
                   (Some (Some second_qr # rest_second)) after_first
                 = (after_first\<lparr>last_qr_times := (last_qr_times after_first)(camera_type \<mapsto> t_second)\<rparr>,
                    if has_callback then [QrDetectedCallback second_qr camera_type] else [])) \<and>
            (other \<noteq> camera_type \<and> last_qr_times st other = Some t_other \<and>
             \<not> t_second - t_other < QR_COOLDOWN_SECONDS cfg \<longrightarrow>
               monitor_camera_step cfg has_callback other t_second
                   (Some (Some second_qr # rest_second)) after_first
                 = (after_first\<lparr>last_qr_times := (last_qr_times after_first)(other \<mapsto> t_second)\<rparr>,
                    if has_callback then [QrDetectedCallback second_qr other] else []) \<and>
               last_qr_times
                 (fst (monitor_camera_step cfg has_callback other t_second
                         (Some (Some second_qr # rest_second)) after_first))
                 camera_type = Some t_first))"
proof (intro conjI impI)
  show "monitor_camera_step cfg has_callback camera_type now (Some (Some qr_data # rest)) st
           = (if now - t_last < QR_COOLDOWN_SECONDS cfg then (st, [])
              else (st\<lparr>last_qr_times := (last_qr_times st)(camera_type \<mapsto> now)\<rparr>,
                    if has_callback then [QrDetectedCallback qr_data camera_type] else []))"
    using assms by (rule monitor_camera_step_detection)
next
  assume first: "\<not> t_first - t_last < QR_COOLDOWN_SECONDS cfg \<and>
          after_first = fst (monitor_camera_step cfg has_callback camera_type t_first
                               (Some (Some first_qr # rest_first)) st)"
  then have upd: "after_first = st\<lparr>last_qr_times := (last_qr_times st)(camera_type \<mapsto> t_first)\<rparr>"
    using assms by (simp add: monitor_camera_step_detection)
  then show same: "last_qr_times after_first camera_type = Some t_first" by simp
  {
    assume "t_second - t_first < QR_COOLDOWN_SECONDS cfg"
    then show "monitor_camera_step cfg has_callback camera_type t_second
                   (Some (Some second_qr # rest_second)) after_first = (after_first, [])"
      using monitor_camera_step_detection[OF same] by simp
  }
  {
    assume "\<not> t_second - t_first < QR_COOLDOWN_SECONDS cfg"
    then show "monitor_camera_step cfg has_callback camera_type t_second
                   (Some (Some second_qr # rest_second)) after_first
                 = (after_first\<lparr>last_qr_times := (last_qr_times after_first)(camera_type \<mapsto> t_second)\<rparr>,
                    if has_callback then [QrDetectedCallback second_qr camera_type] else [])"
      using monitor_camera_step_detection[OF same] by simp
  }
  {
    assume h: "other \<noteq> camera_type \<and> last_qr_times st other = Some t_other \<and>
             \<not> t_second - t_other < QR_COOLDOWN_SECONDS cfg"
    then have ne: "other \<noteq> camera_type"
      and cool: "\<not> t_second - t_other < QR_COOLDOWN_SECONDS cfg"
      by simp_all
    from h upd have o: "last_qr_times after_first other = Some t_other" by simp
    show "monitor_camera_step cfg has_callback other t_second
                   (Some (Some second_qr # rest_second)) after_first
                 = (after_first\<lparr>last_qr_times := (last_qr_times after_first)(other \<mapsto> t_second)\<rparr>,
                    if has_callback then [QrDetectedCallback second_qr other] else [])"
      using monitor_camera_step_detection[OF o] cool by simp
    show "last_qr_times
                 (fst (monitor_camera_step cfg has_callback other t_second
                         (Some (Some second_qr # rest_second)) after_first))
                 camera_type = Some t_first"
      using monitor_camera_step_other_channel[OF ne] same by simp
  }
qed

text \<open>The theorem with the shipped cooldown of 5 seconds: a code admitted on the entry
  channel at 1000; a second one at 1003 is suppressed, one at 1005 is admitted, and one
  on the exit channel at 1003 is admitted.\<close>

theorem cooldown_suppresses_second_event_witness:
  "last_qr_times camera_handler_init ''entry'' = Some 0 \<and>
   \<not> (1000 :: real) - 0 < QR_COOLDOWN_SECONDS shipped_config \<and>
   last_qr_times (fst (monitor_camera_step shipped_config True ''entry'' 1000
        (Some [Some ''U1'']) camera_handler_init)) ''entry'' = Some 1000 \<and>
   (1003 :: real) - 1000 < QR_COOLDOWN_SECONDS shipped_config \<and>
   snd (monitor_camera_step shipped_config True ''entry'' 1003 (Some [Some ''U1''])
          (fst (monitor_camera_step shipped_config True ''entry'' 1000
                  (Some [Some ''U1'']) camera_handler_init))) = [] \<and>
   \<not> (1005 :: real) - 1000 < QR_COOLDOWN_SECONDS shipped_config \<and>
   snd (monitor_camera_step shipped_config True ''entry'' 1005 (Some [Some ''U1''])
          (fst (monitor_camera_step shipped_config True ''entry'' 1000
                  (Some [Some ''U1'']) camera_handler_init)))
     = [QrDetectedCallback ''U1'' ''entry''] \<and>
   ''exit'' \<noteq> ''entry'' \<and> last_qr_times camera_handler_init ''exit'' = Some 0 \<and>
   \<not> (1003 :: real) - 0 < QR_COOLDOWN_SECONDS shipped_config \<and>
   snd (monitor_camera_step shipped_config True ''exit'' 1003 (Some [Some ''U1''])
          (fst (monitor_camera_step shipped_config True ''entry'' 1000
                  (Some [Some ''U1'']) camera_handler_init)))
     = [QrDetectedCallback ''U1'' ''exit'']"
proof -
  let ?st1 = "fst (monitor_camera_step shipped_config True ''entry'' 1000
                  (Some [Some ''U1'']) camera_handler_init)"
  have k: "last_qr_times camera_handler_init ''entry'' = Some 0"
    and k': "last_qr_times camera_handler_init ''exit'' = Some 0"
    by (simp_all add: camera_handler_init_def)
  have adm: "\<not> (1000 :: real) - 0 < QR_COOLDOWN_SECONDS shipped_config"
    and sup: "(1003 :: real) - 1000 < QR_COOLDOWN_SECONDS shipped_config"
    and again: "\<not> (1005 :: real) - 1000 < QR_COOLDOWN_SECONDS shipped_config"
    and oth: "\<not> (1003 :: real) - 0 < QR_COOLDOWN_SECONDS shipped_config"
    by (simp_all add: shipped_config_def)
  have ne: "''exit'' \<noteq> ''entry''" by simp
  note second = cooldown_suppresses_second_event
    [where st = camera_handler_init and camera_type = "''entry''" and cfg = shipped_config
       and has_callback = True and first_qr = "''U1''" and rest_first = "[]" and after_first = ?st1
       and second_qr = "''U1''" and rest_second = "[]" and other = "''exit''"
       and t_first = 1000, OF k]
  have a: "last_qr_times ?st1 ''entry'' = Some 1000"
    using second adm by blast
  have "monitor_camera_step shipped_config True ''entry'' 1003 (Some [Some ''U1'']) ?st1 = (?st1, [])"
    using second[where t_second = 1003] adm sup by blast
  then have b: "snd (monitor_camera_step shipped_config True ''entry'' 1003 (Some [Some ''U1'']) ?st1) = []"
    by (rule arg_cong[where f = snd, THEN trans]) simp
  have "monitor_camera_step shipped_config True ''entry'' 1005 (Some [Some ''U1'']) ?st1
     = (?st1\<lparr>last_qr_times := (last_qr_times ?st1)(''entry'' \<mapsto> 1005)\<rparr>,
        if True then [QrDetectedCallback ''U1'' ''entry''] else [])"
    using second[where t_second = 1005] adm again by blast
  then have c: "snd (monitor_camera_step shipped_config True ''entry'' 1005 (Some [Some ''U1'']) ?st1)
     = [QrDetectedCallback ''U1'' ''entry'']"
    by (rule arg_cong[where f = snd, THEN trans]) simp
  have "monitor_camera_step shipped_config True ''exit'' 1003 (Some [Some ''U1'']) ?st1
     = (?st1\<lparr>last_qr_times := (last_qr_times ?st1)(''exit'' \<mapsto> 1003)\<rparr>,
        if True then [QrDetectedCallback ''U1'' ''exit''] else [])"
    using second[where t_second = 1003 and t_other = 0] adm ne k' oth by blast
  then have d: "snd (monitor_camera_step shipped_config True ''exit'' 1003 (Some [Some ''U1'']) ?st1)
     = [QrDetectedCallback ''U1'' ''exit'']"
    by (rule arg_cong[where f = snd, THEN trans]) simp
  from k adm a sup b again c ne k' oth d show ?thesis by blast
qed

section \<open>Properties of the door commands\<close>


lemma lower_string: "lower v = Inr s \<longleftrightarrow> (\<exists>t. v = JStr t \<and> s = map lower_char t)"
  by (cases v) (auto simp: lower_def)

lemma handle_door_command_object:
  "lower (dict_get items ''action'' (JStr '''')) = Inr action \<Longrightarrow>
   lower (dict_get items ''barrier'' (JStr '''')) = Inr barrier \<Longrightarrow>
   handle_door_command has_callback (Some (JObj items)) =
     (if action = ''open'' then
        (if has_callback
         then [DoorCommandCallback barrier (dict_get items ''userId'' (JStr ''Unknown''))
                 (dict_get items ''slotNumber'' (JInt 0)) (dict_get items ''timestamp'' (JStr ''''))]
         else [])
      else [MqttLogWarning (''Unknown action received: '' @ action)])"
  by (simp add: handle_door_command_def Let_def)

text \<open>
  Claim C5, as amended. A payload that is not parseable JSON is dropped with the error
  record for invalid JSON. An object whose action (absent, or a string) is not
  \<^verbatim>\<open>"open"\<close> after lower-casing, and whose barrier is absent or a string, is dropped
  with the warning for an unknown action; so are the messages with the action
  \<^verbatim>\<open>"close"\<close> and with no action. The handler does not validate the barrier: an object
  with the action \<^verbatim>\<open>"open"\<close> is dispatched to the callback with the lower-cased barrier
  as it is, the message with the barrier \<^verbatim>\<open>"garage"\<close> included. The well-formed message
  for the exit lane is dispatched with barrier \<^verbatim>\<open>"exit"\<close>, the user id and the slot
  number.
\<close>

theorem door_command_validation:
  "handle_door_command has_callback None = [MqttLogError ''Invalid JSON in door command''] \<and>
   (lower (dict_get items ''action'' (JStr '''')) = Inr action \<and> action \<noteq> ''open'' \<and>
    lower (dict_get items ''barrier'' (JStr '''')) = Inr barrier \<longrightarrow>
      handle_door_command has_callback (Some (JObj items))
        = [MqttLogWarning (''Unknown action received: '' @ action)]) \<and>
   (lower (dict_get items ''action'' (JStr '''')) = Inr ''open'' \<and>
    lower (dict_get items ''barrier'' (JStr '''')) = Inr barrier \<longrightarrow>
      handle_door_command True (Some (JObj items))
        = [DoorCommandCallback barrier (dict_get items ''userId'' (JStr ''Unknown''))
             (dict_get items ''slotNumber'' (JInt 0)) (dict_get items ''timestamp'' (JStr ''''))]) \<and>
   handle_door_command True (Some close_command)
     = [MqttLogWarning ''Unknown action received: close''] \<and>
   handle_door_command True (Some no_action_command)
     = [MqttLogWarning ''Unknown action received: ''] \<and>
   handle_door_command True (Some garage_command)
     = [DoorCommandCallback ''garage'' (JStr ''U1'') (JInt 7) (JStr ''2025-01-01T00:00:00'')] \<and>
   handle_door_command True (Some exit_command)
     = [DoorCommandCallback ''exit'' (JStr ''U1'') (JInt 7) (JStr ''2025-01-01T00:00:00'')]"
proof -
  have a: "handle_door_command has_callback None = [MqttLogError ''Invalid JSON in door command'']"
    by (simp add: handle_door_command_def)
  have b: "lower (dict_get items ''action'' (JStr '''')) = Inr action \<and> action \<noteq> ''open'' \<and>
    lower (dict_get items ''barrier'' (JStr '''')) = Inr barrier \<longrightarrow>
      handle_door_command has_callback (Some (JObj items))
        = [MqttLogWarning (''Unknown action received: '' @ action)]"
    by (simp add: handle_door_command_object)
  have c: "lower (dict_get items ''action'' (JStr '''')) = Inr ''open'' \<and>
    lower (dict_get items ''barrier'' (JStr '''')) = Inr barrier \<longrightarrow>
      handle_door_command True (Some (JObj items))
        = [DoorCommandCallback barrier (dict_get items ''userId'' (JStr ''Unknown''))
             (dict_get items ''slotNumber'' (JInt 0)) (dict_get items ''timestamp'' (JStr ''''))]"
    by (simp add: handle_door_command_object)
  have d: "handle_door_command True (Some close_command)
     = [MqttLogWarning ''Unknown action received: close'']"
    by code_simp
  have e: "handle_door_command True (Some no_action_command)
     = [MqttLogWarning ''Unknown action received: '']"
    by code_simp
  have f: "handle_door_command True (Some garage_command)
     = [DoorCommandCallback ''garage'' (JStr ''U1'') (JInt 7) (JStr ''2025-01-01T00:00:00'')]"
    by code_simp
  have g: "handle_door_command True (Some exit_command)
     = [DoorCommandCallback ''exit'' (JStr ''U1'') (JInt 7) (JStr ''2025-01-01T00:00:00'')]"
    by code_simp
  from a b c d e f g show ?thesis by blast
qed

text \<open>The theorem at two objects that hold only an action and a barrier.\<close>

theorem door_command_validation_witness:
  "lower (dict_get [(''action'', JStr ''Close''), (''barrier'', JStr ''exit'')] ''action'' (JStr ''''))
     = Inr ''close'' \<and>
   ''close'' \<noteq> ''open'' \<and>
   lower (dict_get [(''action'', JStr ''Close''), (''barrier'', JStr ''exit'')] ''barrier'' (JStr ''''))
     = Inr ''exit'' \<and>
   handle_door_command True (Some (JObj [(''action'', JStr ''Close''), (''barrier'', JStr ''exit'')]))
     = [MqttLogWarning ''Unknown action received: close''] \<and>
   lower (dict_get [(''action'', JStr ''Open''), (''barrier'', JStr ''exit'')] ''action'' (JStr ''''))
     = Inr ''open'' \<and>
   lower (dict_get [(''action'', JStr ''Open''), (''barrier'', JStr ''exit'')] ''barrier'' (JStr ''''))
     = Inr ''exit'' \<and>
   handle_door_command True (Some (JObj [(''action'', JStr ''Open''), (''barrier'', JStr ''exit'')]))
     = [DoorCommandCallback ''exit'' (JStr ''Unknown'') (JInt 0) (JStr '''')]"
proof -
  let ?c = "[(''action'', JStr ''Close''), (''barrier'', JStr ''exit'')]"
  let ?o = "[(''action'', JStr ''Open''), (''barrier'', JStr ''exit'')]"
  have c1: "lower (dict_get ?c ''action'' (JStr '''')) = Inr ''close''" by code_simp
  have c2: "lower (dict_get ?c ''barrier'' (JStr '''')) = Inr ''exit''" by code_simp
  have o1: "lower (dict_get ?o ''action'' (JStr '''')) = Inr ''open''" by code_simp
  have o2: "lower (dict_get ?o ''barrier'' (JStr '''')) = Inr ''exit''" by code_simp
  have ne: "''close'' \<noteq> ''open''" by simp
  have dc: "dict_get ?o ''userId'' (JStr ''Unknown'') = JStr ''Unknown''"
    "dict_get ?o ''slotNumber'' (JInt 0) = JInt 0"
    "dict_get ?o ''timestamp'' (JStr '''') = JStr ''''"
    by (simp_all add: dict_get_def)
  have w: "handle_door_command True (Some (JObj ?c)) = [MqttLogWarning ''Unknown action received: close'']"
    using door_command_validation[where items = ?c and action = "''close''" and barrier = "''exit''"
        and has_callback = True] c1 c2 ne by simp
  have d: "handle_door_command True (Some (JObj ?o))
     = [DoorCommandCallback ''exit'' (JStr ''Unknown'') (JInt 0) (JStr '''')]"
    using door_command_validation[where items = ?o and barrier = "''exit''"] o1 o2 dc by simp
  from c1 ne c2 w o1 o2 d show ?thesis by blast
qed

text \<open>Against claim C5 as stated: the message with the barrier \<^verbatim>\<open>"garage"\<close> is not
  rejected; the callback is called with it.\<close>

theorem unknown_lane_dispatched_counterexample:
  "handle_door_command True (Some garage_command)
     = [DoorCommandCallback ''garage'' (JStr ''U1'') (JInt 7) (JStr ''2025-01-01T00:00:00'')] \<and>
   list_ex is_dispatch (handle_door_command True (Some garage_command))"
  by code_simp

text \<open>
  Claim C10, as amended. Every JSON object whose action is a string equal to
  \<^verbatim>\<open>"open"\<close> after lower-casing, and whose barrier is absent or a string, is dispatched to
  the (registered) callback, with \<^verbatim>\<open>"Unknown"\<close>, 0 and the empty string in place of an
  absent user id, slot number and timestamp.
\<close>

theorem open_command_defaults:
  assumes "map_of items ''action'' = Some (JStr action)"
    and "map lower_char action = ''open''"
    and "lower (dict_get items ''barrier'' (JStr '''')) = Inr barrier"
  shows "handle_door_command True (Some (JObj items))
           = [DoorCommandCallback barrier
                (case map_of items ''userId'' of None \<Rightarrow> JStr ''Unknown'' | Some v \<Rightarrow> v)
                (case map_of items ''slotNumber'' of None \<Rightarrow> JInt 0 | Some v \<Rightarrow> v)
                (case map_of items ''timestamp'' of None \<Rightarrow> JStr '''' | Some v \<Rightarrow> v)] \<and>
         (map_of items ''userId'' = None \<and> map_of items ''slotNumber'' = None \<and>
          map_of items ''timestamp'' = None \<longrightarrow>
            handle_door_command True (Some (JObj items))
              = [DoorCommandCallback barrier (JStr ''Unknown'') (JInt 0) (JStr '''')])"
proof -
  have act: "lower (dict_get items ''action'' (JStr '''')) = Inr ''open''"
    using assms(1,2) by (simp add: dict_get_def lower_def)
  have "handle_door_command True (Some (JObj items))
           = [DoorCommandCallback barrier (dict_get items ''userId'' (JStr ''Unknown''))
                (dict_get items ''slotNumber'' (JInt 0)) (dict_get items ''timestamp'' (JStr ''''))]"
    using handle_door_command_object[OF act assms(3), of True] by simp
  then show ?thesis by (auto simp: dict_get_def)
qed

text \<open>The theorem at the message that holds only the action \<^verbatim>\<open>"OPEN"\<close> and the barrier
  \<^verbatim>\<open>"Entry"\<close>.\<close>

theorem open_command_defaults_witness:
  "map_of [(''action'', JStr ''OPEN''), (''barrier'', JStr ''Entry'')] ''action'' = Some (JStr ''OPEN'') \<and>
   map lower_char ''OPEN'' = ''open'' \<and>
   lower (dict_get [(''action'', JStr ''OPEN''), (''barrier'', JStr ''Entry'')] ''barrier'' (JStr ''''))
     = Inr ''entry'' \<and>
   map_of [(''action'', JStr ''OPEN''), (''barrier'', JStr ''Entry'')] ''userId'' = None \<and>
   map_of [(''action'', JStr ''OPEN''), (''barrier'', JStr ''Entry'')] ''slotNumber'' = None \<and>
   map_of [(''action'', JStr ''OPEN''), (''barrier'', JStr ''Entry'')] ''timestamp'' = None \<and>
   handle_door_command True (Some bare_command)
     = [DoorCommandCallback ''entry'' (JStr ''Unknown'') (JInt 0) (JStr '''')]"
proof -
  let ?b = "[(''action'', JStr ''OPEN''), (''barrier'', JStr ''Entry'')]"
  have a: "map_of ?b ''action'' = Some (JStr ''OPEN'')" by simp
  have l: "map lower_char ''OPEN'' = ''open''" by code_simp
  have b: "lower (dict_get ?b ''barrier'' (JStr '''')) = Inr ''entry''" by code_simp
  have n: "map_of ?b ''userId'' = None" "map_of ?b ''slotNumber'' = None"
    "map_of ?b ''timestamp'' = None"
    by simp_all
  have "handle_door_command True (Some (JObj ?b))
     = [DoorCommandCallback ''entry'' (JStr ''Unknown'') (JInt 0) (JStr '''')]"
    using open_command_defaults[OF a l b] n by blast
  then have "handle_door_command True (Some bare_command)
     = [DoorCommandCallback ''entry'' (JStr ''Unknown'') (JInt 0) (JStr '''')]"
    by (simp add: bare_command_def)
  with a l b n show ?thesis by blast
qed

text \<open>Against claim C10 as stated: a syntactically valid JSON object with the action
  \<^verbatim>\<open>"open"\<close> whose barrier is the number 7 is not dispatched; lower-casing the barrier
  raises and the handler logs an error.\<close>

theorem numeric_barrier_counterexample:
  "handle_door_command True (Some numeric_barrier_command)
     = [MqttLogError ''Error handling door command''] \<and>
   \<not> list_ex is_dispatch (handle_door_command True (Some numeric_barrier_command))"
  by code_simp

section \<open>A failed sensor read\<close>

text \<open>
  Claim C7, on the code. In the scenario configuration, after a start with every slot
  free (slots 2, 5 and 8 available), a poll reads the first sensor as occupied and fails
  on the second. The pass has already stored the first sensor's new value when the read
  raises, and the handler of the loop skips the recomputation of the table and the
  callback: the stored sensor state is updated in part, the table is stale, one error is
  logged. The next poll, with every read succeeding and the same levels, sees no change,
  so the table still offers slot 2, and no callback ever reports the change. Without the
  failed read the same change leaves only the slots 5 and 8 available.
\<close>

theorem failed_read_loses_change:
  "get_available_slots scenario_config scenario_start = Inr [2, 5, 8] \<and>
   monitor_sensors_step scenario_config True second_read_fails scenario_start
     = (scenario_start\<lparr>real_slot_states := [True, False, False]\<rparr>,
        [SlotLogError ''Error in slot monitoring'']) \<and>
   monitor_sensors_step scenario_config True first_occupied
       (scenario_start\<lparr>real_slot_states := [True, False, False]\<rparr>)
     = (scenario_start\<lparr>real_slot_states := [True, False, False]\<rparr>, []) \<and>
   get_available_slots scenario_config (scenario_start\<lparr>real_slot_states := [True, False, False]\<rparr>)
     = Inr [2, 5, 8] \<and>
   get_available_slots scenario_config
       (fst (monitor_sensors_step scenario_config True first_occupied scenario_start))
     = Inr [5, 8]"
  by code_simp

end
